theory Spec2Isabelle
  imports Complex_Main "HOL-Library.Sublist" "HOL-Library.Multiset"
begin

section \<open>Strings\<close>

text \<open>
  JavaScript strings are modelled as \<^typ>\<open>string\<close> over ASCII. \<open>toLowerCase\<close> maps the
  letters A to Z to a to z and leaves every other character alone; \<open>trim\<close> removes the ASCII
  white space and line terminators (tab, line feed, vertical tab, form feed, carriage
  return, space) from both ends. Characters beyond ASCII are not modelled.
\<close>

definition toLowerChar :: "char \<Rightarrow> char" where
  "toLowerChar c =
     (case map_of (zip ''ABCDEFGHIJKLMNOPQRSTUVWXYZ'' ''abcdefghijklmnopqrstuvwxyz'') c of
        None \<Rightarrow> c
      | Some l \<Rightarrow> l)"

definition toLowerCase :: "string \<Rightarrow> string" where
  "toLowerCase s = map toLowerChar s"

definition isWhiteSpace :: "char \<Rightarrow> bool" where
  "isWhiteSpace c \<longleftrightarrow>
     c \<in> set [CHR 0x09, CHR 0x0A, CHR 0x0B, CHR 0x0C, CHR 0x0D, CHR '' '']"

definition trimStart :: "string \<Rightarrow> string" where
  "trimStart s = dropWhile isWhiteSpace s"

definition trim :: "string \<Rightarrow> string" where
  "trim s = rev (dropWhile isWhiteSpace (rev (dropWhile isWhiteSpace s)))"

text \<open>\<open>s.includes(k)\<close>: \<open>k\<close> occurs in \<open>s\<close> as a contiguous run of characters.\<close>

fun str_includes :: "string \<Rightarrow> string \<Rightarrow> bool" where
  "str_includes [] k = (k = [])"
| "str_includes (c # cs) k = (prefix k (c # cs) \<or> str_includes cs k)"

section \<open>Classifier\<close>

subsection \<open>Keyword classifier (\<open>categorizeIssue\<close>)\<close>

text \<open>
  The keyword table is an object literal; \<open>Object.entries\<close> walks its string keys in the
  order they are written, so the table is an association list in that order.
\<close>

definition CIVIC_CATEGORIES :: "(string \<times> string list) list" where
  "CIVIC_CATEGORIES =
    [(''Water & Supply Management'',
        [''water'', ''pipe'', ''leak'', ''burst'', ''supply'', ''shortage'', ''contamination'',
         ''drinking water'', ''tap'', ''bore well'', ''water tank'', ''pipeline'']),
     (''Electricity'',
        [''power'', ''electricity'', ''cable'', ''wire'', ''transformer'', ''outage'',
         ''blackout'', ''street light'', ''electric pole'', ''power line'', ''voltage'']),
     (''Public Health & Safety'',
        [''health'', ''medical'', ''hospital'', ''clinic'', ''ambulance'', ''safety'',
         ''accident'', ''injury'', ''disease'', ''epidemic'', ''vaccination'']),
     (''Fire & Emergency Services'',
        [''fire'', ''emergency'', ''rescue'', ''disaster'', ''flood'', ''earthquake'',
         ''burning'', ''smoke'', ''evacuation'', ''hazard'', ''danger'']),
     (''Sanitation & Waste Management'',
        [''garbage'', ''waste'', ''trash'', ''dustbin'', ''cleaning'', ''sewage'', ''drain'',
         ''toilet'', ''sanitation'', ''hygiene'', ''overflow'', ''dump'', ''litter'']),
     (''Roads & Infrastructure'',
        [''road'', ''pothole'', ''street'', ''bridge'', ''footpath'', ''sidewalk'',
         ''traffic'', ''construction'', ''repair'', ''maintenance'', ''pavement'']),
     (''Public Transportation'',
        [''bus'', ''transport'', ''metro'', ''railway'', ''station'', ''traffic signal'',
         ''parking'', ''vehicle'', ''auto'', ''rickshaw'']),
     (''Parks & Environment'',
        [''park'', ''tree'', ''garden'', ''environment'', ''pollution'', ''noise'',
         ''air quality'', ''green space'', ''plantation'', ''encroachment''])]"

text \<open>
  The \<open>for ... of\<close> loop over the entries: the first entry one of whose keywords the
  lower-cased description includes is returned; after the last entry the default.
\<close>

fun categorize_loop :: "string \<Rightarrow> (string \<times> string list) list \<Rightarrow> string" where
  "categorize_loop lowerDesc [] = ''General Issues''"
| "categorize_loop lowerDesc ((category, keywords) # rest) =
     (if list_ex (\<lambda>keyword. str_includes lowerDesc keyword) keywords then category
      else categorize_loop lowerDesc rest)"

definition categorizeIssue :: "string \<Rightarrow> string" where
  "categorizeIssue description = categorize_loop (toLowerCase description) CIVIC_CATEGORIES"

text \<open>
  The words of the specification: a keyword matches a description when some contiguous
  part of the description equals the keyword up to letter case; a category matches when
  one of its keywords does.
\<close>

definition ci_substring :: "string \<Rightarrow> string \<Rightarrow> bool" where
  "ci_substring k d \<longleftrightarrow> (\<exists>ps w ss. d = ps @ w @ ss \<and> toLowerCase w = toLowerCase k)"

definition category_matches :: "string \<Rightarrow> string \<times> string list \<Rightarrow> bool" where
  "category_matches d entry \<longleftrightarrow> (\<exists>k \<in> set (snd entry). ci_substring k d)"

subsection \<open>Severity validation (in \<open>POST /ai/describe\<close>)\<close>

definition validSeverities :: "string list" where
  "validSeverities = [''Low'', ''Medium'', ''High'']"

definition finalSeverity :: "string \<Rightarrow> string" where
  "finalSeverity severity =
     (let cleanSeverity = trim severity
      in if cleanSeverity \<in> set validSeverities then cleanSeverity else ''Medium'')"

section \<open>JavaScript values\<close>

text \<open>
  A request body is whatever \<open>JSON.parse\<close> produced, and the handlers read it without
  checking types, so the model keeps the dynamic values. A number is its exact rational
  value, or one of the three special values; rounding to binary64 and the sign of zero are
  not modelled. An object is the list of its own properties, each name once.
\<close>

datatype jsnum = NaN | Fin rat | PosInf | NegInf

datatype jsval =
    JUndefined
  | JNull
  | JBool bool
  | JNum jsnum
  | JStr string
  | JArr "jsval list"
  | JObj "(string \<times> jsval) list"

text \<open>The relational operators on numbers: every comparison with \<open>NaN\<close> is false.\<close>

fun js_lt :: "jsnum \<Rightarrow> jsnum \<Rightarrow> bool" where
  "js_lt NaN b = False"
| "js_lt a NaN = False"
| "js_lt (Fin x) (Fin y) = (x < y)"
| "js_lt (Fin x) PosInf = True"
| "js_lt (Fin x) NegInf = False"
| "js_lt PosInf b = False"
| "js_lt NegInf NegInf = False"
| "js_lt NegInf b = True"

definition js_gt :: "jsnum \<Rightarrow> jsnum \<Rightarrow> bool" where
  "js_gt a b = js_lt b a"

text \<open>Truthiness, as tested by \<open>!x\<close> and \<open>x || y\<close>.\<close>

fun truthy :: "jsval \<Rightarrow> bool" where
  "truthy JUndefined = False"
| "truthy JNull = False"
| "truthy (JBool b) = b"
| "truthy (JNum n) = (n \<noteq> NaN \<and> n \<noteq> Fin 0)"
| "truthy (JStr s) = (s \<noteq> [])"
| "truthy (JArr xs) = True"
| "truthy (JObj kvs) = True"

text \<open>
  Property access \<open>v.k\<close> on a value that is neither \<open>undefined\<close> nor \<open>null\<close> (the
  handlers test the value for truthiness before they read a property of it). Only the own
  properties of a parsed object are found; the names read here (\<open>lat\<close>, \<open>lng\<close>,
  \<open>address\<close>, \<open>description\<close>, ...) are not inherited by any string, number, boolean or
  array.
\<close>

fun get_prop :: "jsval \<Rightarrow> string \<Rightarrow> jsval" where
  "get_prop (JObj kvs) k = (case map_of kvs k of None \<Rightarrow> JUndefined | Some v \<Rightarrow> v)"
| "get_prop v k = JUndefined"

subsection \<open>Numeric strings\<close>

definition isDigit :: "char \<Rightarrow> bool" where
  "isDigit c \<longleftrightarrow> c \<in> set ''0123456789''"

definition digitValue :: "char \<Rightarrow> nat" where
  "digitValue c =
     (case map_of (zip ''0123456789abcdefABCDEF''
                       [0, 1, 2, 3, 4, 5, 6, 7, 8, 9, 10, 11, 12, 13, 14, 15, 10, 11, 12, 13, 14, 15]) c of
        None \<Rightarrow> 0
      | Some d \<Rightarrow> d)"

definition digitsValue :: "nat \<Rightarrow> string \<Rightarrow> nat" where
  "digitsValue radix ds = foldl (\<lambda>acc c. radix * acc + digitValue c) 0 ds"

text \<open>Ten to an integer power, as a rational.\<close>

definition pow10 :: "int \<Rightarrow> rat" where
  "pow10 e = (if 0 \<le> e then 10 ^ nat e else 1 / 10 ^ nat (- e))"

text \<open>
  An optional sign: the factor and the rest of the string.
\<close>

fun scanSign :: "string \<Rightarrow> int \<times> string" where
  "scanSign [] = (1, [])"
| "scanSign (c # cs) =
     (if c = CHR ''+'' then (1, cs) else if c = CHR ''-'' then (- 1, cs) else (1, c # cs))"

text \<open>
  An exponent part \<open>e\<close> or \<open>E\<close>, an optional sign and at least one digit: its value and
  the rest. Where no exponent part starts the string, the exponent is 0 and nothing is
  consumed.
\<close>

definition scanExponent :: "string \<Rightarrow> int \<times> string" where
  "scanExponent s =
     (case s of
        [] \<Rightarrow> (0, s)
      | c # cs \<Rightarrow>
          if c = CHR ''e'' \<or> c = CHR ''E'' then
            (let (sg, r) = scanSign cs; ds = takeWhile isDigit r
             in if ds = [] then (0, s)
                else (sg * int (digitsValue 10 ds), dropWhile isDigit r))
          else (0, s))"

text \<open>
  The longest prefix that is an unsigned decimal literal of the grammar of numeric strings
  (\<open>Infinity\<close>, digits with an optional fraction, or a fraction alone, each with an optional
  exponent): its value and the rest of the string; \<open>None\<close> when no prefix is one.
\<close>

definition scanUnsigned :: "string \<Rightarrow> (jsnum \<times> string) option" where
  "scanUnsigned s =
     (if prefix ''Infinity'' s then Some (PosInf, drop 8 s)
      else
        let ip = takeWhile isDigit s; r1 = dropWhile isDigit s;
            hasDot = (r1 \<noteq> [] \<and> hd r1 = CHR ''.'');
            fp = (if hasDot then takeWhile isDigit (tl r1) else []);
            r2 = (if hasDot then dropWhile isDigit (tl r1) else r1)
        in if ip = [] \<and> fp = [] then None
           else
             let (e, r3) = scanExponent r2;
                 m = rat_of_nat (digitsValue 10 ip)
                     + rat_of_nat (digitsValue 10 fp) / 10 ^ length fp
             in Some (Fin (m * pow10 e), r3))"

definition negate :: "int \<Rightarrow> jsnum \<Rightarrow> jsnum" where
  "negate sg n =
     (if sg = 1 then n
      else case n of NaN \<Rightarrow> NaN | Fin x \<Rightarrow> Fin (- x) | PosInf \<Rightarrow> NegInf | NegInf \<Rightarrow> PosInf)"

text \<open>
  \<open>parseFloat\<close> on a string: leading white space is skipped, the longest prefix that is a
  signed decimal literal is read, anything after it is ignored; \<open>NaN\<close> when there is no
  such prefix.
\<close>

definition parseFloat_string :: "string \<Rightarrow> jsnum" where
  "parseFloat_string s =
     (let (sg, r) = scanSign (trimStart s)
      in case scanUnsigned r of None \<Rightarrow> NaN | Some (n, rest) \<Rightarrow> negate sg n)"

text \<open>
  The conversion of a string to a number, as the relational operators apply it: the whole
  trimmed string must be a numeric literal. The empty string is 0; a literal with prefix
  \<open>0x\<close>, \<open>0o\<close> or \<open>0b\<close> is read in that radix and takes no sign.
\<close>

definition radixLiteral :: "nat \<Rightarrow> string \<Rightarrow> string \<Rightarrow> jsnum" where
  "radixLiteral radix allowed ds =
     (if ds \<noteq> [] \<and> list_all (\<lambda>c. c \<in> set allowed) ds
      then Fin (rat_of_nat (digitsValue radix ds)) else NaN)"

definition StringToNumber :: "string \<Rightarrow> jsnum" where
  "StringToNumber s =
     (let t = trim s
      in if t = [] then Fin 0
         else if prefix ''0x'' t \<or> prefix ''0X'' t
           then radixLiteral 16 ''0123456789abcdefABCDEF'' (drop 2 t)
         else if prefix ''0o'' t \<or> prefix ''0O'' t then radixLiteral 8 ''01234567'' (drop 2 t)
         else if prefix ''0b'' t \<or> prefix ''0B'' t then radixLiteral 2 ''01'' (drop 2 t)
         else
           let (sg, r) = scanSign t
           in case scanUnsigned r of
                None \<Rightarrow> NaN
              | Some (n, rest) \<Rightarrow> if rest = [] then negate sg n else NaN)"

subsection \<open>The environment\<close>

text \<open>
  Two operations are library code whose result this source does not fix; the model takes
  them as parameters and assumes nothing about them.
  \<^item> \<open>ToString_ext v\<close>: the string that ECMAScript's conversion to a primitive gives for a
    number, an array or an object \<open>v\<close> (the digits of a number, the joined elements of an
    array, \<open>[object Object]\<close>), or \<open>None\<close> where the conversion throws.
  \<^item> \<open>ObjectId_isValid s\<close>: \<open>mongoose.Types.ObjectId.isValid(s)\<close>, which is also taken
    as the condition under which Mongoose can cast the string \<open>s\<close> to an ObjectId.
\<close>

record js_env =
  ToString_ext :: "jsval \<Rightarrow> string option"
  ObjectId_isValid :: "string \<Rightarrow> bool"

text \<open>
  Errors thrown inside a handler's \<open>try\<close> block are values: \<open>Inl ()\<close> is a thrown
  exception, which the \<open>catch\<close> block turns into the 500 response.
\<close>

type_synonym 'a throws = "unit + 'a"

text \<open>
  \<open>ToNumber\<close>, applied by \<open>location.lat < -90\<close> to the left operand.
\<close>

definition ToNumber :: "js_env \<Rightarrow> jsval \<Rightarrow> jsnum throws" where
  "ToNumber env v =
     (case v of
        JUndefined \<Rightarrow> Inr NaN
      | JNull \<Rightarrow> Inr (Fin 0)
      | JBool b \<Rightarrow> Inr (Fin (if b then 1 else 0))
      | JNum n \<Rightarrow> Inr n
      | JStr s \<Rightarrow> Inr (StringToNumber s)
      | _ \<Rightarrow> (case ToString_ext env v of None \<Rightarrow> Inl () | Some s \<Rightarrow> Inr (StringToNumber s)))"

text \<open>
  \<open>parseFloat(v)\<close> converts its argument to a string and reads a decimal prefix. For a
  number the string is its shortest round-tripping decimal form, so the number itself comes
  back.
\<close>

definition parseFloat :: "js_env \<Rightarrow> jsval \<Rightarrow> jsnum throws" where
  "parseFloat env v =
     (case v of
        JUndefined \<Rightarrow> Inr NaN
      | JNull \<Rightarrow> Inr NaN
      | JBool b \<Rightarrow> Inr NaN
      | JNum n \<Rightarrow> Inr n
      | JStr s \<Rightarrow> Inr (parseFloat_string s)
      | _ \<Rightarrow> (case ToString_ext env v of None \<Rightarrow> Inl () | Some s \<Rightarrow> Inr (parseFloat_string s)))"

text \<open>\<open>v.trim()\<close>: a method of strings only; on any other value the call throws.\<close>

definition call_trim :: "jsval \<Rightarrow> string throws" where
  "call_trim v = (case v of JStr s \<Rightarrow> Inr (trim s) | _ \<Rightarrow> Inl ())"

section \<open>Data model\<close>

text \<open>
  The Report schema. Identifiers (ObjectIds) and dates are modelled as strings and integer
  time stamps. \<open>location\<close> is flattened into \<open>lat\<close>, \<open>lng\<close>, \<open>address\<close>. A stored
  coordinate has passed the schema's number cast, so it is a finite number.
\<close>

record status_entry =
  entry_status :: string
  entry_timestamp :: int
  entry_by :: string
  entry_comment :: "string option"

record comment =
  comment_by :: string
  comment_text :: string
  comment_timestamp :: int

record report =
  report_id :: string
  userId :: string
  description :: string
  lat :: rat
  lng :: rat
  address :: string
  images :: "string list"
  category :: string
  status :: string
  statusHistory :: "status_entry list"
  comments :: "comment list"
  severity :: "string option"
  departmentId :: "string option"
  createdAt :: int
  updatedAt :: int

text \<open>
  Modelled from the spec: the User model (\<open>./models/User\<close>) is not among the sources. The
  specification and the README give a user a unique email, a name, a hashed password and a
  role, \<open>citizen\<close> or \<open>admin\<close>; the handlers read \<open>_id\<close> and \<open>role\<close>.
\<close>

record user =
  user_id :: string
  user_name :: string
  user_email :: string
  user_password :: string
  role :: string

record db =
  users :: "user list"
  reports :: "report list"

text \<open>
  A report after \<open>populate('userId', ...)\<close>: the stored document and the referenced user,
  \<open>None\<close> (JavaScript \<open>null\<close>) when no such user exists. The populated comment
  authors only decorate the response and are left out; populating the department is
  \<open>populate_departmentId\<close> below.
\<close>

record populated_report =
  doc :: report
  owner :: "user option"

record pagination =
  currentPage :: int
  totalPages :: jsnum
  totalReports :: nat
  hasNext :: bool
  hasPrev :: bool

record report_detail =
  detail_report :: populated_report
  timeSinceSubmission :: int
  canEdit :: bool
  isOwnReport :: bool

text \<open>
  The responses of the three report handlers: an error with its status code and message
  (the 400 for an invalid category also carries the list of valid ones), 201 with the
  created report, 200 with a page of reports, its pagination and the echoed filters, and
  200 with one report.
\<close>

datatype response =
    Fail nat string
  | InvalidCategory "string list"
  | Created "populated_report option"
  | ReportList "populated_report list" pagination "string option \<times> string option \<times> string option"
  | ReportDetail report_detail

section \<open>Authentication middleware\<close>

text \<open>
  \<open>auth\<close> answers 401 unless the \<open>Authorization\<close> header is a bearer token that
  \<open>jwt.verify\<close> accepts; then the token's \<open>id\<close> is the request's \<open>userId\<close>. Verifying
  the signature is library code: the model starts from its outcome.
\<close>

datatype bearer = NoToken | InvalidToken | Verified string

definition auth :: "bearer \<Rightarrow> response + string" where
  "auth b =
     (case b of
        NoToken \<Rightarrow> Inl (Fail 401 ''No token provided'')
      | InvalidToken \<Rightarrow> Inl (Fail 401 ''Invalid token'')
      | Verified decoded_id \<Rightarrow> Inr decoded_id)"

section \<open>Saving a report: the schema's casts and validators\<close>

definition validCategories :: "string list" where
  "validCategories =
     [''Water & Supply Management'', ''Electricity'', ''Public Health & Safety'',
      ''Fire & Emergency Services'', ''Sanitation & Waste Management'',
      ''Roads & Infrastructure'', ''Public Transportation'', ''Parks & Environment'',
      ''General Issues'']"

definition statusEnum :: "string list" where
  "statusEnum = [''Submitted'', ''Acknowledged'', ''In Progress'', ''Resolved'', ''Closed'']"

definition severityEnum :: "string list" where
  "severityEnum = [''Low'', ''Medium'', ''High'']"

text \<open>
  Mongoose's cast of a value to the schema type String: \<open>null\<close> and \<open>undefined\<close> stay,
  a string is itself, an object with a string \<open>_id\<close> is that \<open>_id\<close>, a number or boolean
  is its \<open>toString()\<close>, and an array or any other object is a cast error.
\<close>

datatype cast_result = CastError | CastNull | CastTo string

definition castString :: "js_env \<Rightarrow> jsval \<Rightarrow> cast_result" where
  "castString env v =
     (case v of
        JUndefined \<Rightarrow> CastNull
      | JNull \<Rightarrow> CastNull
      | JBool b \<Rightarrow> CastTo (if b then ''true'' else ''false'')
      | JNum n \<Rightarrow> (case ToString_ext env v of None \<Rightarrow> CastError | Some s \<Rightarrow> CastTo s)
      | JStr s \<Rightarrow> CastTo s
      | JArr xs \<Rightarrow> CastError
      | JObj kvs \<Rightarrow>
          (case get_prop v ''_id'' of
             JStr i \<Rightarrow> if i \<noteq> [] then CastTo i else CastError
           | _ \<Rightarrow> CastError))"

text \<open>A required String path: the cast value must be a non-empty string.\<close>

definition requiredString :: "js_env \<Rightarrow> jsval \<Rightarrow> string option" where
  "requiredString env v =
     (case castString env v of CastTo s \<Rightarrow> if s \<noteq> [] then Some s else None | _ \<Rightarrow> None)"

text \<open>
  A required Number path with \<open>min\<close> and \<open>max\<close>: \<open>NaN\<close> is a cast error, and the
  validators reject a value outside the bounds, the infinities included.
\<close>

definition boundedNumber :: "rat \<Rightarrow> rat \<Rightarrow> jsnum \<Rightarrow> rat option" where
  "boundedNumber lo hi n =
     (case n of Fin x \<Rightarrow> if lo \<le> x \<and> x \<le> hi then Some x else None | _ \<Rightarrow> None)"

text \<open>
  The \<open>severity\<close> path: not required, \<open>enum\<close> Low, Medium, High, \<open>default\<close> Medium. The
  default fills in for \<open>undefined\<close>; \<open>null\<close> is stored as no value; any cast string
  outside the enum is a validation error. The outer \<open>None\<close> is the error.
\<close>

definition severityPath :: "js_env \<Rightarrow> jsval \<Rightarrow> string option option" where
  "severityPath env v =
     (if v = JUndefined then Some (Some ''Medium'')
      else case castString env v of
             CastError \<Rightarrow> None
           | CastNull \<Rightarrow> Some None
           | CastTo s \<Rightarrow> if s \<in> set severityEnum then Some (Some s) else None)"

text \<open>The object literal handed to \<open>new Report(...)\<close> by the submission handler.\<close>

record report_fields =
  in_userId :: string
  in_description :: string
  in_lat :: jsnum
  in_lng :: jsnum
  in_address :: string
  in_images :: "jsval list"
  in_category :: jsval
  in_severity :: jsval
  in_status :: string
  in_statusHistory :: "status_entry list"

text \<open>
  \<open>new Report(fields)\<close> followed by the validation that \<open>save()\<close> runs: every path is
  cast and validated as the schema declares it; one failure rejects the document
  (\<open>None\<close>). \<open>new_id\<close> is the \<open>_id\<close> Mongoose generates and \<open>saved_at\<close> the time the
  \<open>timestamps\<close> option records.
\<close>

definition validate_entry :: "status_entry \<Rightarrow> status_entry option" where
  "validate_entry e =
     (if entry_status e \<noteq> [] \<and> entry_by e \<noteq> []
      then Some (e\<lparr>entry_comment := map_option trim (entry_comment e)\<rparr>) else None)"

definition new_Report :: "js_env \<Rightarrow> string \<Rightarrow> int \<Rightarrow> report_fields \<Rightarrow> report option" where
  "new_Report env new_id saved_at f =
     (if \<not> ObjectId_isValid env (in_userId f) then None
      else if trim (in_description f) = [] \<or> trim (in_address f) = [] then None
      else if in_status f \<notin> set statusEnum then None
      else
        case (boundedNumber (- 90) 90 (in_lat f), boundedNumber (- 180) 180 (in_lng f),
              those (map (requiredString env) (in_images f)),
              requiredString env (in_category f),
              severityPath env (in_severity f),
              those (map validate_entry (in_statusHistory f))) of
          (Some la, Some lo, Some imgs, Some cat, Some sev, Some hist) \<Rightarrow>
            if cat \<in> set validCategories then
              Some \<lparr>report_id = new_id, userId = in_userId f,
                    description = trim (in_description f),
                    lat = la, lng = lo, address = trim (in_address f),
                    images = imgs, category = cat, status = in_status f,
                    statusHistory = hist, comments = [],
                    severity = sev, departmentId = None,
                    createdAt = saved_at, updatedAt = saved_at\<rparr>
            else None
        | _ \<Rightarrow> None)"

text \<open>
  The insert: MongoDB rejects a document whose \<open>_id\<close> is already in the collection.
\<close>

definition insert_report :: "db \<Rightarrow> report \<Rightarrow> db option" where
  "insert_report d r =
     (if list_ex (\<lambda>x. report_id x = report_id r) (reports d) then None
      else Some (d\<lparr>reports := reports d @ [r]\<rparr>))"

section \<open>Queries\<close>

definition findUserById :: "js_env \<Rightarrow> db \<Rightarrow> string \<Rightarrow> user option throws" where
  "findUserById env d uid =
     (if \<not> ObjectId_isValid env uid then Inl ()
      else Inr (find (\<lambda>u. user_id u = uid) (users d)))"

text \<open>
  \<open>Report.findById\<close>: with an ObjectId in hand the lookup cannot fail to cast; with a
  string from the request the cast comes first.
\<close>

definition findReport :: "db \<Rightarrow> string \<Rightarrow> report option" where
  "findReport d rid = find (\<lambda>r. report_id r = rid) (reports d)"

definition findReportById :: "js_env \<Rightarrow> db \<Rightarrow> string \<Rightarrow> report option throws" where
  "findReportById env d rid =
     (if \<not> ObjectId_isValid env rid then Inl () else Inr (findReport d rid))"

definition populate_userId :: "db \<Rightarrow> report \<Rightarrow> populated_report" where
  "populate_userId d r = \<lparr>doc = r, owner = find (\<lambda>u. user_id u = userId r) (users d)\<rparr>"

text \<open>
  \<open>populate('departmentId', ...)\<close>, which both read handlers chain to their query. The
  schema's \<open>ref\<close> for this path names a model \<open>Department\<close>, and no file of this source
  registers a model of that name. For a document that has a \<open>departmentId\<close> Mongoose
  cannot resolve the model and the query is rejected; a document without one has nothing
  to populate.
\<close>

definition populate_departmentId :: "report list \<Rightarrow> report list throws" where
  "populate_departmentId docs =
     (if list_all (\<lambda>r. departmentId r = None) docs then Inr docs else Inl ())"

section \<open>\<open>POST /api/reports\<close>\<close>

text \<open>
  What one request draws from outside: the generated \<open>_id\<close>, the handler's
  \<open>new Date()\<close> and the time stamp set on save.
\<close>

record fresh =
  new_id :: string
  date_now :: int
  saved_at :: int

definition isArray :: "jsval \<Rightarrow> bool" where
  "isArray v = (case v of JArr xs \<Rightarrow> True | _ \<Rightarrow> False)"

definition array_items :: "jsval \<Rightarrow> jsval list" where
  "array_items v = (case v of JArr xs \<Rightarrow> xs | _ \<Rightarrow> [])"

text \<open>\<open>validCategories.includes(category)\<close>: only a string equal to one of them.\<close>

definition includes_category :: "jsval \<Rightarrow> bool" where
  "includes_category v = (case v of JStr s \<Rightarrow> s \<in> set validCategories | _ \<Rightarrow> False)"

definition server_error :: response where
  "server_error = Fail 500 ''Failed to submit report''"

text \<open>The object literal of the handler, once its argument expressions have values.\<close>

definition report_literal ::
  "fresh \<Rightarrow> string \<Rightarrow> string \<Rightarrow> jsnum \<Rightarrow> jsnum \<Rightarrow> string \<Rightarrow> jsval \<Rightarrow> jsval \<Rightarrow> jsval
     \<Rightarrow> report_fields" where
  "report_literal fr uid description' lat' lng' address' imgs cat sev =
     \<lparr>in_userId = uid, in_description = description',
      in_lat = lat', in_lng = lng', in_address = address',
      in_images = array_items imgs, in_category = cat,
      in_severity = (if truthy sev then sev else JStr ''Medium''),
      in_status = ''Submitted'',
      in_statusHistory =
        [\<lparr>entry_status = ''Submitted'', entry_timestamp = date_now fr,
          entry_by = ''system'', entry_comment = Some ''Report submitted by user''\<rparr>]\<rparr>"

text \<open>
  The part of the handler from \<open>new Report\<close> on: the argument expressions are evaluated
  in the order written, any of them may throw, and \<open>save\<close> may reject. The saved report
  is then read back by its \<open>_id\<close> and populated.
\<close>

definition create_report ::
  "js_env \<Rightarrow> db \<Rightarrow> fresh \<Rightarrow> string \<Rightarrow> jsval \<Rightarrow> jsval \<Rightarrow> jsval \<Rightarrow> jsval \<Rightarrow> jsval
     \<Rightarrow> response \<times> db" where
  "create_report env d fr uid desc loc imgs cat sev =
     (case (call_trim desc, parseFloat env (get_prop loc ''lat''),
            parseFloat env (get_prop loc ''lng''), call_trim (get_prop loc ''address'')) of
        (Inr description', Inr lat', Inr lng', Inr address') \<Rightarrow>
          (case new_Report env (new_id fr) (saved_at fr)
                  (report_literal fr uid description' lat' lng' address' imgs cat sev) of
             None \<Rightarrow> (server_error, d)
           | Some newReport \<Rightarrow>
               (case insert_report d newReport of
                  None \<Rightarrow> (server_error, d)
                | Some d' \<Rightarrow>
                    (Created (map_option (populate_userId d')
                                (findReport d' (report_id newReport))), d')))
      | _ \<Rightarrow> (server_error, d))"

definition submit_report :: "js_env \<Rightarrow> db \<Rightarrow> fresh \<Rightarrow> bearer \<Rightarrow> jsval \<Rightarrow> response \<times> db" where
  "submit_report env d fr token body =
     (case auth token of
        Inl denied \<Rightarrow> (denied, d)
      | Inr uid \<Rightarrow>
          if body = JUndefined \<or> body = JNull then (server_error, d)
          else
            let desc = get_prop body ''description''; loc = get_prop body ''location'';
                imgs = get_prop body ''images''; cat = get_prop body ''category'';
                sev = get_prop body ''severity''
            in
              if \<not> truthy desc \<or> \<not> truthy loc \<or> \<not> truthy imgs \<or> \<not> truthy cat then
                (Fail 400 ''Description, location, images, and category are required'', d)
              else if \<not> truthy (get_prop loc ''lat'') \<or> \<not> truthy (get_prop loc ''lng'')
                      \<or> \<not> truthy (get_prop loc ''address'') then
                (Fail 400 ''Location must include lat, lng, and address'', d)
              else if \<not> isArray imgs \<or> length (array_items imgs) = 0 then
                (Fail 400 ''At least one image is required'', d)
              else
                (case ToNumber env (get_prop loc ''lat'') of
                   Inl e \<Rightarrow> (server_error, d)
                 | Inr latn \<Rightarrow>
                     if js_lt latn (Fin (- 90)) \<or> js_gt latn (Fin 90) then
                       (Fail 400 ''Latitude must be between -90 and 90'', d)
                     else
                       (case ToNumber env (get_prop loc ''lng'') of
                          Inl e \<Rightarrow> (server_error, d)
                        | Inr lngn \<Rightarrow>
                            if js_lt lngn (Fin (- 180)) \<or> js_gt lngn (Fin 180) then
                              (Fail 400 ''Longitude must be between -180 and 180'', d)
                            else if \<not> includes_category cat then
                              (InvalidCategory validCategories, d)
                            else create_report env d fr uid desc loc imgs cat sev)))"

section \<open>\<open>GET /api/reports\<close>\<close>

text \<open>
  The query string. \<open>status\<close>, \<open>category\<close> and \<open>userId\<close> are absent or strings (a
  repeated or bracketed parameter, which arrives as an array or object, is not modelled).
  \<open>p_page\<close> and \<open>p_limit\<close> are absent or the integers that \<open>parseInt\<close> reads from
  the parameters; a parameter from which \<open>parseInt\<close> reads no integer is handed on as
  \<open>NaN\<close> to the database driver, whose answer this source does not fix, and is not
  modelled.
\<close>

record list_params =
  p_status :: "string option"
  p_category :: "string option"
  p_userId :: "string option"
  p_page :: "int option"
  p_limit :: "int option"

record query =
  q_userId :: "string option"
  q_status :: "string option"
  q_category :: "string option"

text \<open>A parameter under \<open>if (x)\<close>: absent and the empty string are both falsy.\<close>

definition given :: "string option \<Rightarrow> string option" where
  "given x = (if x = Some [] then None else x)"

definition build_query :: "user \<Rightarrow> string \<Rightarrow> list_params \<Rightarrow> query" where
  "build_query currentUser uid p =
     \<lparr>q_userId = (if role currentUser \<noteq> ''admin'' then Some uid else given (p_userId p)),
      q_status = given (p_status p),
      q_category = given (p_category p)\<rparr>"

definition pageNum :: "list_params \<Rightarrow> int" where
  "pageNum p = (case p_page p of None \<Rightarrow> 1 | Some n \<Rightarrow> n)"

definition limitNum :: "list_params \<Rightarrow> int" where
  "limitNum p = (case p_limit p of None \<Rightarrow> 10 | Some n \<Rightarrow> n)"

definition match_field :: "string option \<Rightarrow> string \<Rightarrow> bool" where
  "match_field f v = (case f of None \<Rightarrow> True | Some x \<Rightarrow> v = x)"

definition matches :: "query \<Rightarrow> report \<Rightarrow> bool" where
  "matches q r \<longleftrightarrow>
     match_field (q_userId q) (userId r) \<and> match_field (q_status q) (status r) \<and>
     match_field (q_category q) (category r)"

text \<open>
  \<open>sort({createdAt: -1})\<close>: newest first. MongoDB leaves the order of reports with
  equal creation times open; the model keeps them in stored order.
\<close>

definition newest_first :: "report list \<Rightarrow> report list" where
  "newest_first rs = sort_key (\<lambda>r. - createdAt r) rs"

text \<open>
  MongoDB's \<open>limit\<close>: 0 is no limit, and a negative limit is its absolute value.
\<close>

definition apply_limit :: "int \<Rightarrow> 'a list \<Rightarrow> 'a list" where
  "apply_limit l xs = (if l = 0 then xs else take (nat \<bar>l\<bar>) xs)"

text \<open>
  \<open>Report.find(query).sort(...).limit(l).skip(s)\<close> and \<open>countDocuments(query)\<close>. The
  query's \<open>userId\<close> is cast to an ObjectId, which throws for a string that is none; the
  sort is applied first, then the skip, then the limit, whatever the order of the calls;
  MongoDB rejects a negative skip.
\<close>

definition query_casts :: "js_env \<Rightarrow> query \<Rightarrow> bool" where
  "query_casts env q = (case q_userId q of None \<Rightarrow> True | Some u \<Rightarrow> ObjectId_isValid env u)"

definition Report_find :: "js_env \<Rightarrow> db \<Rightarrow> query \<Rightarrow> int \<Rightarrow> int \<Rightarrow> report list throws" where
  "Report_find env d q l s =
     (if \<not> query_casts env q then Inl ()
      else if s < 0 then Inl ()
      else Inr (apply_limit l (drop (nat s) (newest_first (filter (matches q) (reports d))))))"

definition countDocuments :: "js_env \<Rightarrow> db \<Rightarrow> query \<Rightarrow> nat throws" where
  "countDocuments env d q =
     (if \<not> query_casts env q then Inl () else Inr (length (filter (matches q) (reports d))))"

text \<open>Division of integers as numbers, and \<open>Math.ceil\<close>.\<close>

definition js_div :: "int \<Rightarrow> int \<Rightarrow> jsnum" where
  "js_div a b =
     (if b = 0 then (if a = 0 then NaN else if 0 < a then PosInf else NegInf)
      else Fin (rat_of_int a / rat_of_int b))"

definition Math_ceil :: "jsnum \<Rightarrow> jsnum" where
  "Math_ceil n = (case n of Fin x \<Rightarrow> Fin (rat_of_int \<lceil>x\<rceil>) | _ \<Rightarrow> n)"

definition list_error :: response where
  "list_error = Fail 500 ''Failed to fetch reports''"

definition list_reports :: "js_env \<Rightarrow> db \<Rightarrow> bearer \<Rightarrow> list_params \<Rightarrow> response" where
  "list_reports env d token p =
     (case auth token of
        Inl denied \<Rightarrow> denied
      | Inr uid \<Rightarrow>
          (case findUserById env d uid of
             Inl e \<Rightarrow> list_error
           | Inr None \<Rightarrow> Fail 404 ''User not found''
           | Inr (Some currentUser) \<Rightarrow>
               let q = build_query currentUser uid p;
                   skip = (pageNum p - 1) * limitNum p
               in (case Report_find env d q (limitNum p) skip of
                     Inl e \<Rightarrow> list_error
                   | Inr found \<Rightarrow>
                       (case populate_departmentId found of
                          Inl e \<Rightarrow> list_error
                        | Inr populated \<Rightarrow>
                            (case countDocuments env d q of
                               Inl e \<Rightarrow> list_error
                             | Inr counted \<Rightarrow>
                                 ReportList (map (populate_userId d) populated)
                                   \<lparr>currentPage = pageNum p,
                                    totalPages = Math_ceil (js_div (int counted) (limitNum p)),
                                    totalReports = counted,
                                    hasNext = js_lt (Fin (rat_of_int (pageNum p)))
                                                (Math_ceil (js_div (int counted) (limitNum p))),
                                    hasPrev = (1 < pageNum p)\<rparr>
                                   (p_status p, p_category p, p_userId p))))))"

section \<open>\<open>GET /api/reports/:id\<close>\<close>

definition detail_error :: response where
  "detail_error = Fail 500 ''Failed to fetch report''"

text \<open>
  \<open>now\<close> is the handler's \<open>new Date()\<close>. The query for the report populates its
  owner and its department; the query is rejected, and the handler answers 500, when the
  report has a \<open>departmentId\<close>. Where the report's owner does not exist,
  \<open>populate\<close> leaves \<open>report.userId\<close> null and reading \<open>report.userId._id\<close> throws:
  in the access test for a requester who is not an admin, in \<open>isOwnReport\<close> for an
  admin.
\<close>

definition get_report :: "js_env \<Rightarrow> db \<Rightarrow> int \<Rightarrow> bearer \<Rightarrow> string \<Rightarrow> response" where
  "get_report env d now token rid =
     (case auth token of
        Inl denied \<Rightarrow> denied
      | Inr uid \<Rightarrow>
          if \<not> ObjectId_isValid env rid then Fail 400 ''Invalid report ID format''
          else
            (case findReportById env d rid of
               Inl e \<Rightarrow> detail_error
             | Inr None \<Rightarrow> Fail 404 ''Report not found''
             | Inr (Some r) \<Rightarrow>
                 (case populate_departmentId [r] of
                    Inl e \<Rightarrow> detail_error
                  | Inr populated \<Rightarrow>
                      let report = populate_userId d r
                      in (case findUserById env d uid of
                            Inl e \<Rightarrow> detail_error
                          | Inr None \<Rightarrow> Fail 404 ''User not found''
                          | Inr (Some currentUser) \<Rightarrow>
                              (case owner report of
                                 None \<Rightarrow> detail_error
                               | Some report_userId \<Rightarrow>
                                   if role currentUser \<noteq> ''admin''
                                      \<and> user_id report_userId \<noteq> uid
                                   then Fail 403
                                          ''Access denied. You can only view your own reports.''
                                   else
                                     ReportDetail
                                       \<lparr>detail_report = report,
                                        timeSinceSubmission = now - createdAt r,
                                        canEdit = (role currentUser = ''admin''
                                                   \<or> user_id report_userId = uid),
                                        isOwnReport = (user_id report_userId = uid)\<rparr>)))))"

text \<open>Whether a response is the 201 of a created report.\<close>

definition is_created :: "response \<Rightarrow> bool" where
  "is_created resp = (case resp of Created p \<Rightarrow> True | _ \<Rightarrow> False)"

text \<open>A stored report whose category and severity are values of their enums.\<close>

definition report_valid :: "report \<Rightarrow> bool" where
  "report_valid r \<longleftrightarrow>
     category r \<in> set validCategories \<and> severity r \<in> {Some ''Low'', Some ''Medium'', Some ''High''}"

text \<open>
  A submission by \<open>uid\<close> that is valid in everything but, possibly, its coordinates: the
  description and the address are strings that are not blank, the images are a non-empty
  array of non-empty strings, the category is one of the valid ones, the severity is absent,
  empty or one of the enum, the user id casts to an ObjectId and the generated \<open>_id\<close> is
  new.
\<close>

definition nonempty_string :: "jsval \<Rightarrow> bool" where
  "nonempty_string v = (case v of JStr s \<Rightarrow> s \<noteq> [] | _ \<Rightarrow> False)"

definition nonblank_string :: "jsval \<Rightarrow> bool" where
  "nonblank_string v = (case v of JStr s \<Rightarrow> trim s \<noteq> [] | _ \<Rightarrow> False)"

definition valid_apart_from_coordinates :: "js_env \<Rightarrow> db \<Rightarrow> fresh \<Rightarrow> string \<Rightarrow> jsval \<Rightarrow> bool" where
  "valid_apart_from_coordinates env d fr uid body \<longleftrightarrow>
     ObjectId_isValid env uid \<and>
     \<not> list_ex (\<lambda>x. report_id x = new_id fr) (reports d) \<and>
     nonblank_string (get_prop body ''description'') \<and>
     nonblank_string (get_prop (get_prop body ''location'') ''address'') \<and>
     isArray (get_prop body ''images'') \<and>
     array_items (get_prop body ''images'') \<noteq> [] \<and>
     list_all nonempty_string (array_items (get_prop body ''images'')) \<and>
     includes_category (get_prop body ''category'') \<and>
     (get_prop body ''severity'' = JUndefined \<or>
      (case get_prop body ''severity'' of JStr s \<Rightarrow> s = [] \<or> s \<in> set severityEnum | _ \<Rightarrow> False))"

section \<open>A concrete setting for the examples\<close>

text \<open>
  The closed examples below run the handlers in this setting: identifiers are valid when
  they are 24 hexadecimal digits, and no number, array or object is ever converted to a
  string in them, so that conversion is instantiated by the function that always throws.
\<close>

definition isHex24 :: "string \<Rightarrow> bool" where
  "isHex24 s \<longleftrightarrow> length s = 24 \<and> list_all (\<lambda>c. c \<in> set ''0123456789abcdefABCDEF'') s"

definition demo_env :: js_env where
  "demo_env = \<lparr>ToString_ext = (\<lambda>v. None), ObjectId_isValid = isHex24\<rparr>"

definition alice_id :: string where "alice_id = ''64a000000000000000000001''"
definition bob_id :: string where "bob_id = ''64a000000000000000000002''"
definition admin_id :: string where "admin_id = ''64a000000000000000000003''"

definition alice :: user where
  "alice = \<lparr>user_id = alice_id, user_name = ''Alice'', user_email = ''alice@example.org'',
            user_password = ''x'', role = ''citizen''\<rparr>"

definition bob :: user where
  "bob = \<lparr>user_id = bob_id, user_name = ''Bob'', user_email = ''bob@example.org'',
          user_password = ''y'', role = ''citizen''\<rparr>"

definition carol :: user where
  "carol = \<lparr>user_id = admin_id, user_name = ''Carol'', user_email = ''carol@example.org'',
            user_password = ''z'', role = ''admin''\<rparr>"

definition demo_users :: "user list" where
  "demo_users = [alice, bob, carol]"

definition empty_db :: db where
  "empty_db = \<lparr>users = demo_users, reports = []\<rparr>"

definition demo_fresh :: fresh where
  "demo_fresh = \<lparr>new_id = ''64b000000000000000000001'', date_now = 1000, saved_at = 1001\<rparr>"

definition demo_body :: "jsval \<Rightarrow> jsval \<Rightarrow> jsval \<Rightarrow> jsval" where
  "demo_body la lo sev =
     JObj [(''description'', JStr ''Deep pothole''),
           (''location'', JObj [(''lat'', la), (''lng'', lo), (''address'', JStr ''1 Main Street'')]),
           (''images'', JArr [JStr ''https://res.cloudinary.com/demo/a.jpg'']),
           (''category'', JStr ''Roads & Infrastructure''),
           (''severity'', sev)]"

text \<open>Twenty-five reports of Alice's, created at times 1 to 25, and one of Bob's.\<close>

definition demo_report :: "string \<Rightarrow> nat \<Rightarrow> report" where
  "demo_report uid i =
     \<lparr>report_id = ''64c0000000000000000000'' @ [''0123456789'' ! (i div 10), ''0123456789'' ! (i mod 10)],
      userId = uid, description = ''Deep pothole'',
      lat = 12, lng = 77, address = ''1 Main Street'',
      images = [''https://res.cloudinary.com/demo/a.jpg''],
      category = ''Roads & Infrastructure'', status = ''Submitted'',
      statusHistory =
        [\<lparr>entry_status = ''Submitted'', entry_timestamp = int i, entry_by = ''system'',
          entry_comment = Some ''Report submitted by user''\<rparr>],
      comments = [], severity = Some ''Medium'', departmentId = None,
      createdAt = int i, updatedAt = int i\<rparr>"

definition demo_db :: db where
  "demo_db = \<lparr>users = demo_users,
              reports = map (demo_report alice_id) [1..<26] @ [demo_report bob_id 30]\<rparr>"

text \<open>
  The same data after Alice's newest report has been assigned to a department, as the
  schema's \<open>departmentId\<close> provides for.
\<close>

definition assigned_report :: report where
  "assigned_report = (demo_report alice_id 25)\<lparr>departmentId := Some ''64d000000000000000000001''\<rparr>"

definition assigned_db :: db where
  "assigned_db = \<lparr>users = demo_users,
                  reports = map (demo_report alice_id) [1..<25] @ [assigned_report]
                            @ [demo_report bob_id 30]\<rparr>"

definition no_params :: list_params where
  "no_params = \<lparr>p_status = None, p_category = None, p_userId = None,
                 p_page = None, p_limit = None\<rparr>"

section \<open>Properties of the classifier\<close>

lemma str_includes_iff: "str_includes s k \<longleftrightarrow> (\<exists>ps ss. s = ps @ k @ ss)"
proof (induction s)
  case Nil
  then show ?case by auto
next
  case (Cons c cs)
  show ?case
  proof
    assume "str_includes (c # cs) k"
    then consider "prefix k (c # cs)" | "str_includes cs k" by auto
    then show "\<exists>ps ss. c # cs = ps @ k @ ss"
    proof cases
      case 1
      then obtain ss where "c # cs = k @ ss" by (auto simp: prefix_def)
      then have "c # cs = [] @ k @ ss" by simp
      then show ?thesis by blast
    next
      case 2
      with Cons.IH obtain ps ss where "cs = ps @ k @ ss" by blast
      then have "c # cs = (c # ps) @ k @ ss" by simp
      then show ?thesis by blast
    qed
  next
    assume "\<exists>ps ss. c # cs = ps @ k @ ss"
    then obtain ps ss where eq: "c # cs = ps @ k @ ss" by blast
    show "str_includes (c # cs) k"
    proof (cases ps)
      case Nil
      with eq have "prefix k (c # cs)" by (simp add: prefix_def)
      then show ?thesis by simp
    next
      case (Cons p ps')
      with eq have "cs = ps' @ k @ ss" by simp
      with Cons.IH have "str_includes cs k" by blast
      then show ?thesis by simp
    qed
  qed
qed

lemma toLowerCase_append: "toLowerCase (a @ b) = toLowerCase a @ toLowerCase b"
  by (simp add: toLowerCase_def)

lemma ci_substring_iff: "ci_substring k d \<longleftrightarrow> str_includes (toLowerCase d) (toLowerCase k)"
proof
  assume "ci_substring k d"
  then obtain ps w ss where "d = ps @ w @ ss" "toLowerCase w = toLowerCase k"
    by (auto simp: ci_substring_def)
  then have "toLowerCase d = toLowerCase ps @ toLowerCase k @ toLowerCase ss"
    by (simp add: toLowerCase_append)
  then show "str_includes (toLowerCase d) (toLowerCase k)"
    unfolding str_includes_iff by blast
next
  assume "str_includes (toLowerCase d) (toLowerCase k)"
  then obtain ps ss where eq: "map toLowerChar d = ps @ toLowerCase k @ ss"
    unfolding str_includes_iff toLowerCase_def by blast
  then have "\<exists>a r. d = a @ r \<and> ps = map toLowerChar a \<and> toLowerCase k @ ss = map toLowerChar r"
    by (simp only: map_eq_append_conv)
  then obtain a r where d1: "d = a @ r"
    and r: "map toLowerChar r = toLowerCase k @ ss"
    by auto
  from r have "\<exists>w b. r = w @ b \<and> toLowerCase k = map toLowerChar w \<and> ss = map toLowerChar b"
    by (simp only: map_eq_append_conv)
  then obtain w b where d2: "r = w @ b" and w: "map toLowerChar w = toLowerCase k"
    by auto
  have "d = a @ w @ b" using d1 d2 by simp
  moreover have "toLowerCase w = toLowerCase k" using w by (simp add: toLowerCase_def)
  ultimately show "ci_substring k d" unfolding ci_substring_def by blast
qed

lemma keywords_lower_all:
  "list_all (\<lambda>entry. list_all (\<lambda>k. toLowerCase k = k) (snd entry)) CIVIC_CATEGORIES"
  by code_simp

lemma keywords_lower:
  "entry \<in> set CIVIC_CATEGORIES \<Longrightarrow> k \<in> set (snd entry) \<Longrightarrow> toLowerCase k = k"
  using keywords_lower_all by (auto simp: list_all_iff)

lemma category_matches_iff:
  assumes "entry \<in> set CIVIC_CATEGORIES"
  shows "category_matches d entry \<longleftrightarrow>
         list_ex (\<lambda>keyword. str_includes (toLowerCase d) keyword) (snd entry)"
  using keywords_lower [OF assms]
  by (auto simp: category_matches_def ci_substring_iff list_ex_iff)

lemma categorize_loop_none:
  "\<forall>e \<in> set tbl. \<not> list_ex (str_includes l) (snd e) \<Longrightarrow> categorize_loop l tbl = ''General Issues''"
  by (induction l tbl rule: categorize_loop.induct) auto

lemma categorize_loop_first:
  "i < length tbl \<Longrightarrow> list_ex (str_includes l) (snd (tbl ! i)) \<Longrightarrow>
   \<forall>j<i. \<not> list_ex (str_includes l) (snd (tbl ! j)) \<Longrightarrow>
   categorize_loop l tbl = fst (tbl ! i)"
proof (induction tbl arbitrary: i)
  case Nil
  then show ?case by simp
next
  case (Cons e tbl)
  obtain c ks where e: "e = (c, ks)" by (cases e)
  show ?case
  proof (cases i)
    case 0
    with Cons.prems e show ?thesis by simp
  next
    case (Suc i')
    from Cons.prems(3) Suc have no: "\<not> list_ex (str_includes l) ks"
      using e by force
    have "\<forall>j<i'. \<not> list_ex (str_includes l) (snd (tbl ! j))"
      using Cons.prems(3) Suc by force
    with Cons.IH [of i'] Cons.prems(1,2) Suc
    have "categorize_loop l tbl = fst (tbl ! i')" by simp
    with no e Suc show ?thesis by simp
  qed
qed

lemma categorize_loop_earlier:
  "i < length tbl \<Longrightarrow> list_ex (str_includes l) (snd (tbl ! i)) \<Longrightarrow>
   \<exists>k\<le>i. categorize_loop l tbl = fst (tbl ! k)"
proof (induction tbl arbitrary: i)
  case Nil
  then show ?case by simp
next
  case (Cons e tbl)
  obtain c ks where e: "e = (c, ks)" by (cases e)
  show ?case
  proof (cases "list_ex (str_includes l) ks")
    case True
    with e have "categorize_loop l (e # tbl) = fst ((e # tbl) ! 0)" by simp
    then show ?thesis by blast
  next
    case False
    with Cons.prems e obtain i' where i': "i = Suc i'" by (cases i) auto
    with Cons.prems Cons.IH [of i'] obtain k where "k \<le> i'"
      "categorize_loop l tbl = fst (tbl ! k)" by auto
    with False e i' have "Suc k \<le> i \<and> categorize_loop l (e # tbl) = fst ((e # tbl) ! Suc k)"
      by simp
    then show ?thesis by blast
  qed
qed

lemma category_names_distinct: "distinct (map fst CIVIC_CATEGORIES)"
  by code_simp

lemma category_matches_nth:
  "i < length CIVIC_CATEGORIES \<Longrightarrow>
   category_matches d (CIVIC_CATEGORIES ! i) \<longleftrightarrow>
   list_ex (str_includes (toLowerCase d)) (snd (CIVIC_CATEGORIES ! i))"
  by (rule category_matches_iff) simp

text \<open>
  Claim C4. For every description, \<open>categorizeIssue\<close> lower-cases the description and
  returns the first category, in the order of the keyword table, one of whose keywords
  occurs in the description as a substring up to letter case; it returns
  \<open>General Issues\<close> when no keyword of any category occurs. In particular, when the
  keywords of two different categories occur, the result is a category declared no later
  than the earlier of the two, and is never the later one.
\<close>

theorem categorizeIssue_first_match:
  "((\<forall>entry \<in> set CIVIC_CATEGORIES. \<not> category_matches d entry) \<longrightarrow>
      categorizeIssue d = ''General Issues'') \<and>
   (\<forall>i < length CIVIC_CATEGORIES.
      category_matches d (CIVIC_CATEGORIES ! i) \<and>
      (\<forall>j<i. \<not> category_matches d (CIVIC_CATEGORIES ! j)) \<longrightarrow>
      categorizeIssue d = fst (CIVIC_CATEGORIES ! i)) \<and>
   (\<forall>i j. i < j \<and> j < length CIVIC_CATEGORIES \<and>
      category_matches d (CIVIC_CATEGORIES ! i) \<and> category_matches d (CIVIC_CATEGORIES ! j) \<longrightarrow>
      (\<exists>k\<le>i. categorizeIssue d = fst (CIVIC_CATEGORIES ! k)) \<and>
      categorizeIssue d \<noteq> fst (CIVIC_CATEGORIES ! j))"
proof (intro conjI allI impI)
  assume "\<forall>entry \<in> set CIVIC_CATEGORIES. \<not> category_matches d entry"
  then have "\<forall>e \<in> set CIVIC_CATEGORIES. \<not> list_ex (str_includes (toLowerCase d)) (snd e)"
    by (simp add: category_matches_iff)
  then show "categorizeIssue d = ''General Issues''"
    unfolding categorizeIssue_def by (rule categorize_loop_none)
next
  fix i
  assume i: "i < length CIVIC_CATEGORIES"
    and m: "category_matches d (CIVIC_CATEGORIES ! i) \<and>
            (\<forall>j<i. \<not> category_matches d (CIVIC_CATEGORIES ! j))"
  from i m have "list_ex (str_includes (toLowerCase d)) (snd (CIVIC_CATEGORIES ! i))"
    by (simp add: category_matches_nth)
  moreover from i m have "\<forall>j<i. \<not> list_ex (str_includes (toLowerCase d)) (snd (CIVIC_CATEGORIES ! j))"
    by (simp add: category_matches_nth)
  ultimately show "categorizeIssue d = fst (CIVIC_CATEGORIES ! i)"
    unfolding categorizeIssue_def using i by (intro categorize_loop_first)
next
  fix i j
  assume h: "i < j \<and> j < length CIVIC_CATEGORIES \<and>
      category_matches d (CIVIC_CATEGORIES ! i) \<and> category_matches d (CIVIC_CATEGORIES ! j)"
  then have i: "i < length CIVIC_CATEGORIES" by simp
  with h have "list_ex (str_includes (toLowerCase d)) (snd (CIVIC_CATEGORIES ! i))"
    by (simp add: category_matches_nth)
  with i obtain k where k: "k \<le> i" "categorizeIssue d = fst (CIVIC_CATEGORIES ! k)"
    unfolding categorizeIssue_def using categorize_loop_earlier by blast
  then show "\<exists>k\<le>i. categorizeIssue d = fst (CIVIC_CATEGORIES ! k)" by blast
  from k h have "k < j" "j < length (map fst CIVIC_CATEGORIES)" "k < length (map fst CIVIC_CATEGORIES)"
    by simp_all
  then have "map fst CIVIC_CATEGORIES ! k \<noteq> map fst CIVIC_CATEGORIES ! j"
    using nth_eq_iff_index_eq [OF category_names_distinct, of k j] by simp
  with k h show "categorizeIssue d \<noteq> fst (CIVIC_CATEGORIES ! j)" by simp
qed

lemma len8: "length CIVIC_CATEGORIES = 8" by (simp add: CIVIC_CATEGORIES_def)

theorem categorizeIssue_first_match_witness:
  "category_matches ''Huge POTHOLE, and a Fire'' (CIVIC_CATEGORIES ! 3) \<and>
   category_matches ''Huge POTHOLE, and a Fire'' (CIVIC_CATEGORIES ! 5) \<and>
   \<not> category_matches ''Huge POTHOLE, and a Fire'' (CIVIC_CATEGORIES ! 0) \<and>
   \<not> category_matches ''Huge POTHOLE, and a Fire'' (CIVIC_CATEGORIES ! 1) \<and>
   \<not> category_matches ''Huge POTHOLE, and a Fire'' (CIVIC_CATEGORIES ! 2) \<and>
   categorizeIssue ''Huge POTHOLE, and a Fire'' = ''Fire & Emergency Services'' \<and>
   categorizeIssue ''Huge POTHOLE, and a Fire'' \<noteq> ''Roads & Infrastructure'' \<and>
   list_all (\<lambda>entry. \<not> category_matches ''xyz'' entry) CIVIC_CATEGORIES \<and>
   categorizeIssue ''xyz'' = ''General Issues''"
proof -
  let ?d = "''Huge POTHOLE, and a Fire''"
  have "list_ex (str_includes (toLowerCase ?d)) (snd (CIVIC_CATEGORIES ! 3))"
    by code_simp
  then have m3: "category_matches ?d (CIVIC_CATEGORIES ! 3)"
    by (simp add: category_matches_nth len8)
  have "list_ex (str_includes (toLowerCase ?d)) (snd (CIVIC_CATEGORIES ! 5))"
    by code_simp
  then have m5: "category_matches ?d (CIVIC_CATEGORIES ! 5)"
    by (simp add: category_matches_nth len8)
  have "\<not> list_ex (str_includes (toLowerCase ?d)) (snd (CIVIC_CATEGORIES ! 0))"
    by code_simp
  then have n0: "\<not> category_matches ?d (CIVIC_CATEGORIES ! 0)"
    by (simp add: category_matches_nth len8)
  have "\<not> list_ex (str_includes (toLowerCase ?d)) (snd (CIVIC_CATEGORIES ! 1))"
    by code_simp
  then have n1: "\<not> category_matches ?d (CIVIC_CATEGORIES ! 1)"
    by (simp add: category_matches_nth len8)
  have "\<not> list_ex (str_includes (toLowerCase ?d)) (snd (CIVIC_CATEGORIES ! 2))"
    by code_simp
  then have n2: "\<not> category_matches ?d (CIVIC_CATEGORIES ! 2)"
    by (simp add: category_matches_nth len8)
  have nlt: "\<forall>j<3. \<not> category_matches ?d (CIVIC_CATEGORIES ! j)"
  proof (intro allI impI)
    fix j :: nat assume "j < 3"
    then consider "j = 0" | "j = 1" | "j = 2" by linarith
    then show "\<not> category_matches ?d (CIVIC_CATEGORIES ! j)"
      using n0 n1 n2 by cases simp_all
  qed
  have "list_all (\<lambda>e. \<not> list_ex (str_includes (toLowerCase ''xyz'')) (snd e)) CIVIC_CATEGORIES"
    by code_simp
  then have nx: "\<forall>entry \<in> set CIVIC_CATEGORIES. \<not> category_matches ''xyz'' entry"
    by (simp add: category_matches_iff list_all_iff)
  have f3: "fst (CIVIC_CATEGORIES ! 3) = ''Fire & Emergency Services''" by code_simp
  note T = categorizeIssue_first_match [of ?d] categorizeIssue_first_match [of "''xyz''"]
  have r1: "categorizeIssue ?d = ''Fire & Emergency Services''"
    using T(1) [THEN conjunct2, THEN conjunct1, rule_format, of 3] m3 nlt f3 len8 by simp
  have r2: "categorizeIssue ?d \<noteq> ''Roads & Infrastructure''"
    using r1 by simp
  have r3: "categorizeIssue ''xyz'' = ''General Issues''"
    using T(2) [THEN conjunct1] nx by simp
  from nx have nx': "list_all (\<lambda>entry. \<not> category_matches ''xyz'' entry) CIVIC_CATEGORIES"
    by (simp add: list_all_iff)
  show ?thesis using m3 m5 n0 n1 n2 r1 r2 nx' r3 by blast
qed

subsection \<open>Severity validation\<close>

text \<open>
  Claim C6. Severity validation is an exact, case-sensitive match: the trimmed label is
  returned as it is exactly when it is one of \<open>Low\<close>, \<open>Medium\<close>, \<open>High\<close>, and
  \<open>Medium\<close> is returned for every other input, the empty string and the case variants
  \<open>urgent\<close>, \<open>high\<close>, \<open>HIGH\<close> included. The label reaching this step comes from
  \<open>extractField\<close>, which trims it already; for such a label the trimmed label is the
  label itself.
\<close>

theorem finalSeverity_exact_match:
  "(trim s \<in> {''Low'', ''Medium'', ''High''} \<longrightarrow> finalSeverity s = trim s) \<and>
   (trim s \<notin> {''Low'', ''Medium'', ''High''} \<longrightarrow> finalSeverity s = ''Medium'') \<and>
   (finalSeverity s = trim s \<longleftrightarrow> trim s \<in> {''Low'', ''Medium'', ''High''}) \<and>
   (trim s = s \<longrightarrow> (finalSeverity s = s \<longleftrightarrow> s \<in> {''Low'', ''Medium'', ''High''})) \<and>
   finalSeverity [] = ''Medium'' \<and>
   finalSeverity ''urgent'' = ''Medium'' \<and>
   finalSeverity ''high'' = ''Medium'' \<and>
   finalSeverity ''HIGH'' = ''Medium'' \<and>
   finalSeverity ''High'' = ''High''"
proof -
  have gen: "finalSeverity s = (if trim s \<in> {''Low'', ''Medium'', ''High''} then trim s else ''Medium'')"
    by (simp add: finalSeverity_def validSeverities_def Let_def)
  have ex: "finalSeverity [] = ''Medium''" "finalSeverity ''urgent'' = ''Medium''"
    "finalSeverity ''high'' = ''Medium''" "finalSeverity ''HIGH'' = ''Medium''"
    "finalSeverity ''High'' = ''High''"
    by (simp_all add: finalSeverity_def validSeverities_def trim_def isWhiteSpace_def)
  from gen have "trim s \<in> {''Low'', ''Medium'', ''High''} \<longrightarrow> finalSeverity s = trim s"
    by simp
  moreover from gen have "trim s \<notin> {''Low'', ''Medium'', ''High''} \<longrightarrow> finalSeverity s = ''Medium''"
    by simp
  moreover from gen have "finalSeverity s = trim s \<longleftrightarrow> trim s \<in> {''Low'', ''Medium'', ''High''}"
    by auto
  moreover from gen have "trim s = s \<longrightarrow> (finalSeverity s = s \<longleftrightarrow> s \<in> {''Low'', ''Medium'', ''High''})"
    by auto
  ultimately show ?thesis using ex by blast
qed

theorem finalSeverity_exact_match_witness:
  "trim ''Low'' = ''Low'' \<and> ''Low'' \<in> {''Low'', ''Medium'', ''High''} \<and> finalSeverity ''Low'' = ''Low'' \<and>
   trim ''low'' = ''low'' \<and> ''low'' \<notin> {''Low'', ''Medium'', ''High''} \<and> finalSeverity ''low'' = ''Medium''"
proof -
  have t1: "trim ''Low'' = ''Low''" by (simp add: trim_def isWhiteSpace_def)
  have t2: "trim ''low'' = ''low''" by (simp add: trim_def isWhiteSpace_def)
  have "finalSeverity ''Low'' = ''Low''"
    using finalSeverity_exact_match [of "''Low''"] t1 by simp
  moreover have "finalSeverity ''low'' = ''Medium''"
    using finalSeverity_exact_match [of "''low''"] t2 by simp
  ultimately show ?thesis using t1 t2 by simp
qed

section \<open>Properties of report submission\<close>

lemma find_append_new:
  "\<not> list_ex P xs \<Longrightarrow> P x \<Longrightarrow> find P (xs @ [x]) = Some x"
  by (induction xs) auto

lemma new_Report_props:
  assumes "new_Report env i t f = Some r"
  shows "report_id r = i" "userId r = in_userId f" "status r = in_status f"
    "category r \<in> set validCategories"
    "severityPath env (in_severity f) = Some (severity r)"
    "those (map validate_entry (in_statusHistory f)) = Some (statusHistory r)"
    "boundedNumber (- 90) 90 (in_lat f) = Some (lat r)"
    "boundedNumber (- 180) 180 (in_lng f) = Some (lng r)"
    "requiredString env (in_category f) = Some (category r)"
  using assms unfolding new_Report_def
  by (auto split: if_splits option.splits)

lemma truthy_cast_not_null: "truthy v \<Longrightarrow> castString env v \<noteq> CastNull"
  by (cases v) (auto simp: castString_def split: option.splits jsval.splits)

lemma severityPath_truthy:
  "truthy v \<Longrightarrow> severityPath env v = Some s \<Longrightarrow> \<exists>x \<in> set severityEnum. s = Some x"
  using truthy_cast_not_null [of v env]
  by (cases v) (auto simp: severityPath_def split: cast_result.splits if_splits)

lemma create_report_cases:
  assumes "create_report env d fr uid desc loc imgs cat sev = (resp, d')"
  shows "(d' = d \<and> resp = server_error) \<or>
         (\<exists>ds la lo ad r.
            call_trim desc = Inr ds \<and> parseFloat env (get_prop loc ''lat'') = Inr la \<and>
            parseFloat env (get_prop loc ''lng'') = Inr lo \<and>
            call_trim (get_prop loc ''address'') = Inr ad \<and>
            new_Report env (new_id fr) (saved_at fr)
              (report_literal fr uid ds la lo ad imgs cat sev) = Some r \<and>
            \<not> list_ex (\<lambda>x. report_id x = report_id r) (reports d) \<and>
            d' = d\<lparr>reports := reports d @ [r]\<rparr> \<and>
            resp = Created (Some (populate_userId d' r)))"
proof (cases "d' = d \<and> resp = server_error")
  case True
  then show ?thesis by simp
next
  case False
  with assms obtain ds la lo ad where a:
    "call_trim desc = Inr ds" "parseFloat env (get_prop loc ''lat'') = Inr la"
    "parseFloat env (get_prop loc ''lng'') = Inr lo" "call_trim (get_prop loc ''address'') = Inr ad"
    unfolding create_report_def by (auto split: sum.splits)
  with assms False obtain r where r:
    "new_Report env (new_id fr) (saved_at fr) (report_literal fr uid ds la lo ad imgs cat sev) = Some r"
    unfolding create_report_def by (auto split: option.splits)
  with assms False a have n: "\<not> list_ex (\<lambda>x. report_id x = report_id r) (reports d)"
    unfolding create_report_def insert_report_def by (auto split: if_splits)
  then have f: "findReport (d\<lparr>reports := reports d @ [r]\<rparr>) (report_id r) = Some r"
    unfolding findReport_def by (simp add: find_append_new)
  from assms a r n f have "d' = d\<lparr>reports := reports d @ [r]\<rparr>"
    "resp = Created (Some (populate_userId d' r))"
    unfolding create_report_def insert_report_def by auto
  with a r n show ?thesis by blast
qed

lemma submit_report_cases:
  assumes "submit_report env d fr token body = (resp, d')"
  shows "(d' = d \<and> (\<forall>p. resp \<noteq> Created p)) \<or>
         (\<exists>uid. token = Verified uid \<and>
            create_report env d fr uid (get_prop body ''description'') (get_prop body ''location'')
              (get_prop body ''images'') (get_prop body ''category'') (get_prop body ''severity'')
            = (resp, d'))"
  using assms unfolding submit_report_def Let_def auth_def server_error_def
  by (auto split: sum.splits if_splits bearer.splits)

lemma submit_report_Created:
  assumes "submit_report env d fr token body = (resp, d')" and "d' \<noteq> d \<or> is_created resp"
  shows "\<exists>uid ds la lo ad r.
            token = Verified uid \<and>
            call_trim (get_prop body ''description'') = Inr ds \<and>
            parseFloat env (get_prop (get_prop body ''location'') ''lat'') = Inr la \<and>
            parseFloat env (get_prop (get_prop body ''location'') ''lng'') = Inr lo \<and>
            call_trim (get_prop (get_prop body ''location'') ''address'') = Inr ad \<and>
            new_Report env (new_id fr) (saved_at fr)
              (report_literal fr uid ds la lo ad (get_prop body ''images'')
                 (get_prop body ''category'') (get_prop body ''severity'')) = Some r \<and>
            \<not> list_ex (\<lambda>x. report_id x = report_id r) (reports d) \<and>
            d' = d\<lparr>reports := reports d @ [r]\<rparr> \<and>
            resp = Created (Some (populate_userId d' r))"
proof -
  from assms(2) have "\<not> (d' = d \<and> (\<forall>p. resp \<noteq> Created p))"
    by (auto simp: is_created_def split: response.splits)
  with submit_report_cases [OF assms(1)] obtain uid where u: "token = Verified uid"
    and c: "create_report env d fr uid (get_prop body ''description'') (get_prop body ''location'')
              (get_prop body ''images'') (get_prop body ''category'') (get_prop body ''severity'')
            = (resp, d')" by blast
  from assms(2) have "\<not> (d' = d \<and> resp = server_error)"
    by (auto simp: is_created_def server_error_def)
  with create_report_cases [OF c] u show ?thesis by blast
qed

text \<open>
  Claim C3. For every successful submission through \<open>POST /api/reports\<close>, the created
  report (the one stored and returned) has a status history of exactly one entry, with
  status \<open>Submitted\<close>, actor \<open>system\<close> and comment \<open>Report submitted by user\<close>, and its
  status field is \<open>Submitted\<close>, the status of the most recent history entry.
\<close>

theorem submit_report_seeds_history:
  "submit_report env d fr token body = (Created p, d') \<Longrightarrow>
   \<exists>r. p = Some (populate_userId d' r) \<and> reports d' = reports d @ [r] \<and>
       statusHistory r =
         [\<lparr>entry_status = ''Submitted'', entry_timestamp = date_now fr, entry_by = ''system'',
           entry_comment = Some ''Report submitted by user''\<rparr>] \<and>
       length (statusHistory r) = 1 \<and>
       status r = ''Submitted'' \<and>
       status r = entry_status (last (statusHistory r))"
proof -
  assume a: "submit_report env d fr token body = (Created p, d')"
  have "is_created (Created p)" by (simp add: is_created_def)
  with submit_report_Created [OF a] obtain uid ds la lo ad r where
    n: "new_Report env (new_id fr) (saved_at fr)
              (report_literal fr uid ds la lo ad (get_prop body ''images'')
                 (get_prop body ''category'') (get_prop body ''severity'')) = Some r"
    and d': "d' = d\<lparr>reports := reports d @ [r]\<rparr>"
    and p: "Created p = Created (Some (populate_userId d' r))" by blast
  from new_Report_props(3) [OF n] have s: "status r = ''Submitted''"
    by (simp add: report_literal_def)
  from new_Report_props(6) [OF n] have h: "statusHistory r =
         [\<lparr>entry_status = ''Submitted'', entry_timestamp = date_now fr, entry_by = ''system'',
           entry_comment = Some ''Report submitted by user''\<rparr>]"
    by (simp add: report_literal_def validate_entry_def trim_def isWhiteSpace_def)
  from p d' s h show ?thesis by simp
qed

lemma demo_created:
  "is_created (fst (submit_report demo_env empty_db demo_fresh (Verified alice_id)
      (demo_body (JNum (Fin 12)) (JNum (Fin 77)) (JStr ''High''))))"
  by code_simp

theorem submit_report_seeds_history_witness:
  "\<exists>p d' r. submit_report demo_env empty_db demo_fresh (Verified alice_id)
        (demo_body (JNum (Fin 12)) (JNum (Fin 77)) (JStr ''High'')) = (Created p, d') \<and>
      p = Some (populate_userId d' r) \<and> reports d' = reports empty_db @ [r] \<and>
      length (statusHistory r) = 1 \<and> status r = ''Submitted'' \<and>
      entry_status (last (statusHistory r)) = ''Submitted'' \<and>
      entry_by (last (statusHistory r)) = ''system'' \<and>
      entry_comment (last (statusHistory r)) = Some ''Report submitted by user''"
proof -
  obtain resp d' where e: "submit_report demo_env empty_db demo_fresh (Verified alice_id)
        (demo_body (JNum (Fin 12)) (JNum (Fin 77)) (JStr ''High'')) = (resp, d')"
    by (cases "submit_report demo_env empty_db demo_fresh (Verified alice_id)
        (demo_body (JNum (Fin 12)) (JNum (Fin 77)) (JStr ''High''))")
  with demo_created obtain p where "resp = Created p"
    by (auto simp: is_created_def split: response.splits)
  with e have e': "submit_report demo_env empty_db demo_fresh (Verified alice_id)
        (demo_body (JNum (Fin 12)) (JNum (Fin 77)) (JStr ''High'')) = (Created p, d')" by simp
  from submit_report_seeds_history [OF e'] obtain r where
    "p = Some (populate_userId d' r)" "reports d' = reports empty_db @ [r]"
    "statusHistory r =
         [\<lparr>entry_status = ''Submitted'', entry_timestamp = date_now demo_fresh, entry_by = ''system'',
           entry_comment = Some ''Report submitted by user''\<rparr>]"
    "status r = ''Submitted''" by blast
  with e' show ?thesis by auto
qed

text \<open>
  Claim C5. Every report that a submission persists carries a category of the nine-value
  enum and a severity of Low, Medium, High: a submission either leaves the collection as it
  is or appends one report with both, so a collection of valid reports stays one. In
  particular, a submission whose severity is a non-empty string outside the enum persists
  nothing and is not answered 201.
\<close>

theorem persisted_report_valid:
  "submit_report env d fr token body = (resp, d') \<Longrightarrow>
   (reports d' = reports d \<or>
      (\<exists>r. reports d' = reports d @ [r] \<and> category r \<in> set validCategories \<and>
           severity r \<in> {Some ''Low'', Some ''Medium'', Some ''High''})) \<and>
   ((\<forall>r \<in> set (reports d). report_valid r) \<longrightarrow> (\<forall>r \<in> set (reports d'). report_valid r)) \<and>
   (\<forall>s. get_prop body ''severity'' = JStr s \<and> s \<noteq> [] \<and> s \<notin> {''Low'', ''Medium'', ''High''} \<longrightarrow>
        d' = d \<and> \<not> is_created resp) \<and>
   length validCategories = 9"
proof -
  assume a: "submit_report env d fr token body = (resp, d')"
  have new: "category r \<in> set validCategories \<and>
             severity r \<in> {Some ''Low'', Some ''Medium'', Some ''High''} \<and>
             (\<forall>s. get_prop body ''severity'' = JStr s \<and> s \<noteq> [] \<longrightarrow> severity r = Some s)"
    if n: "new_Report env (new_id fr) (saved_at fr)
              (report_literal fr uid ds la lo ad (get_prop body ''images'')
                 (get_prop body ''category'') (get_prop body ''severity'')) = Some r"
    for uid ds la lo ad r
  proof -
    let ?sev = "if truthy (get_prop body ''severity'') then get_prop body ''severity''
                else JStr ''Medium''"
    have t: "truthy ?sev" by simp
    from new_Report_props(5) [OF n] have sp: "severityPath env ?sev = Some (severity r)"
      by (simp add: report_literal_def)
    from severityPath_truthy [OF t sp] have "severity r \<in> {Some ''Low'', Some ''Medium'', Some ''High''}"
      by (auto simp: severityEnum_def)
    moreover have "severity r = Some s" if "get_prop body ''severity'' = JStr s" "s \<noteq> []" for s
      using sp that by (auto simp: severityPath_def castString_def split: if_splits)
    ultimately show ?thesis using new_Report_props(4) [OF n] by blast
  qed
  show ?thesis
  proof (cases "d' \<noteq> d \<or> is_created resp")
    case False
    then show ?thesis by (auto simp: validCategories_def)
  next
    case True
    from submit_report_Created [OF a True] obtain uid ds la lo ad r where
      n: "new_Report env (new_id fr) (saved_at fr)
              (report_literal fr uid ds la lo ad (get_prop body ''images'')
                 (get_prop body ''category'') (get_prop body ''severity'')) = Some r"
      and d': "d' = d\<lparr>reports := reports d @ [r]\<rparr>" by blast
    from new [OF n] d' show ?thesis
      by (auto simp: report_valid_def validCategories_def)
  qed
qed


theorem persisted_report_valid_witness:
  "get_prop (demo_body (JNum (Fin 12)) (JNum (Fin 77)) (JStr ''urgent'')) ''severity'' = JStr ''urgent'' \<and>
   ''urgent'' \<noteq> [] \<and> ''urgent'' \<notin> {''Low'', ''Medium'', ''High''} \<and>
   snd (submit_report demo_env empty_db demo_fresh (Verified alice_id)
          (demo_body (JNum (Fin 12)) (JNum (Fin 77)) (JStr ''urgent''))) = empty_db \<and>
   \<not> is_created (fst (submit_report demo_env empty_db demo_fresh (Verified alice_id)
          (demo_body (JNum (Fin 12)) (JNum (Fin 77)) (JStr ''urgent'')))) \<and>
   map severity (reports (snd (submit_report demo_env empty_db demo_fresh (Verified alice_id)
          (demo_body (JNum (Fin 12)) (JNum (Fin 77)) (JStr ''High''))))) = [Some ''High''] \<and>
   map category (reports (snd (submit_report demo_env empty_db demo_fresh (Verified alice_id)
          (demo_body (JNum (Fin 12)) (JNum (Fin 77)) (JStr ''High''))))) = [''Roads & Infrastructure'']"
proof -
  let ?b = "demo_body (JNum (Fin 12)) (JNum (Fin 77)) (JStr ''urgent'')"
  have g: "get_prop ?b ''severity'' = JStr ''urgent''" by (simp add: demo_body_def)
  have "submit_report demo_env empty_db demo_fresh (Verified alice_id) ?b =
        (fst (submit_report demo_env empty_db demo_fresh (Verified alice_id) ?b),
         snd (submit_report demo_env empty_db demo_fresh (Verified alice_id) ?b))" by simp
  from persisted_report_valid [OF this] g
  have u: "snd (submit_report demo_env empty_db demo_fresh (Verified alice_id) ?b) = empty_db \<and>
           \<not> is_created (fst (submit_report demo_env empty_db demo_fresh (Verified alice_id) ?b))"
    by simp
  have h: "map severity (reports (snd (submit_report demo_env empty_db demo_fresh (Verified alice_id)
          (demo_body (JNum (Fin 12)) (JNum (Fin 77)) (JStr ''High''))))) = [Some ''High'']"
    by code_simp
  have c: "map category (reports (snd (submit_report demo_env empty_db demo_fresh (Verified alice_id)
          (demo_body (JNum (Fin 12)) (JNum (Fin 77)) (JStr ''High''))))) = [''Roads & Infrastructure'']"
    by code_simp
  show ?thesis using g u h c by simp
qed

lemma get_prop_defined: "get_prop v k \<noteq> JUndefined \<Longrightarrow> \<exists>kvs. v = JObj kvs"
  by (cases v) auto

lemma trim_Nil: "trim [] = []"
  by (simp add: trim_def)

lemma trim_idem: "trim (trim s) = trim s"
proof -
  define t where "t = dropWhile isWhiteSpace s"
  show ?thesis
  proof (cases t)
    case Nil
    then show ?thesis by (simp add: trim_def t_def [symmetric])
  next
    case (Cons a t')
    have "dropWhile isWhiteSpace s \<noteq> []" using Cons by (simp add: t_def)
    then have "\<not> isWhiteSpace (hd (dropWhile isWhiteSpace s))"
      by (rule hd_dropWhile)
    with Cons have na: "\<not> isWhiteSpace a" by (simp add: t_def [symmetric])
    have "\<exists>v. dropWhile isWhiteSpace (rev t) = v @ [a]"
    proof (cases "\<forall>x\<in>set t'. isWhiteSpace x")
      case True
      with Cons na have "dropWhile isWhiteSpace (rev t) = [] @ [a]"
        by (simp add: dropWhile_append)
      then show ?thesis by blast
    next
      case False
      with Cons na have "dropWhile isWhiteSpace (rev t) = dropWhile isWhiteSpace (rev t') @ [a]"
        by (simp add: dropWhile_append)
      then show ?thesis by blast
    qed
    then obtain v where v: "dropWhile isWhiteSpace (rev t) = v @ [a]" by blast
    have "dropWhile isWhiteSpace (v @ [a]) = v @ [a]"
      using v dropWhile_idem [of isWhiteSpace "rev t"] by simp
    then show ?thesis
      using na by (simp add: trim_def t_def [symmetric] v)
  qed
qed

lemma nonblank_stringD: "nonblank_string v \<Longrightarrow> \<exists>s. v = JStr s \<and> s \<noteq> [] \<and> trim s \<noteq> []"
  by (cases v) (auto simp: nonblank_string_def trim_Nil)

lemma requiredString_images:
  "list_all nonempty_string xs \<Longrightarrow> \<exists>ys. those (map (requiredString env) xs) = Some ys"
proof (induction xs)
  case Nil
  then show ?case by simp
next
  case (Cons v xs)
  then obtain s where "v = JStr s" "s \<noteq> []"
    by (cases v) (auto simp: nonempty_string_def)
  then have "requiredString env v = Some s"
    by (simp add: requiredString_def castString_def)
  with Cons show ?case by auto
qed

lemma includes_categoryD:
  "includes_category v \<Longrightarrow> \<exists>c. v = JStr c \<and> c \<in> set validCategories \<and> c \<noteq> []"
  by (cases v) (auto simp: includes_category_def validCategories_def)

text \<open>The handler on a body with numeric coordinates that passes the presence tests.\<close>

lemma submit_report_numeric:
  assumes "truthy (get_prop body ''description'')" "truthy (get_prop body ''images'')"
    "truthy (get_prop body ''category'')"
    "truthy (get_prop (get_prop body ''location'') ''address'')"
    "isArray (get_prop body ''images'')" "array_items (get_prop body ''images'') \<noteq> []"
    and la: "get_prop (get_prop body ''location'') ''lat'' = JNum (Fin x)"
    and lo: "get_prop (get_prop body ''location'') ''lng'' = JNum (Fin y)"
    and nz: "x \<noteq> 0" "y \<noteq> 0"
  shows "submit_report env d fr (Verified uid) body =
     (if x < - 90 \<or> 90 < x then (Fail 400 ''Latitude must be between -90 and 90'', d)
      else if y < - 180 \<or> 180 < y then (Fail 400 ''Longitude must be between -180 and 180'', d)
      else if \<not> includes_category (get_prop body ''category'') then
        (InvalidCategory validCategories, d)
      else create_report env d fr uid (get_prop body ''description'') (get_prop body ''location'')
             (get_prop body ''images'') (get_prop body ''category'') (get_prop body ''severity''))"
proof -
  from la have "get_prop (get_prop body ''location'') ''lat'' \<noteq> JUndefined" by simp
  then obtain kvs where loc: "get_prop body ''location'' = JObj kvs"
    using get_prop_defined by blast
  then have "get_prop body ''location'' \<noteq> JUndefined" by simp
  then obtain bs where b: "body = JObj bs" using get_prop_defined by blast
  have tl: "truthy (get_prop body ''location'')" using loc by simp
  have nb: "body \<noteq> JUndefined" "body \<noteq> JNull" using b by simp_all
  show ?thesis
    unfolding submit_report_def Let_def auth_def
    using assms(1-6) tl nb nz
    by (simp add: la lo ToNumber_def js_gt_def)
qed

lemma create_report_valid:
  assumes v: "valid_apart_from_coordinates env d fr uid body"
    and la: "get_prop (get_prop body ''location'') ''lat'' = JNum (Fin x)"
    and lo: "get_prop (get_prop body ''location'') ''lng'' = JNum (Fin y)"
    and rg: "- 90 \<le> x" "x \<le> 90" "- 180 \<le> y" "y \<le> 180"
  shows "\<exists>r. create_report env d fr uid (get_prop body ''description'') (get_prop body ''location'')
             (get_prop body ''images'') (get_prop body ''category'') (get_prop body ''severity'')
           = (Created (Some (populate_userId (d\<lparr>reports := reports d @ [r]\<rparr>) r)),
              d\<lparr>reports := reports d @ [r]\<rparr>) \<and> lat r = x \<and> lng r = y \<and> report_id r = new_id fr"
proof -
  from v obtain ds where ds: "get_prop body ''description'' = JStr ds" "trim ds \<noteq> []"
    unfolding valid_apart_from_coordinates_def using nonblank_stringD by blast
  from v obtain ad where ad: "get_prop (get_prop body ''location'') ''address'' = JStr ad" "trim ad \<noteq> []"
    unfolding valid_apart_from_coordinates_def using nonblank_stringD by blast
  from v obtain c where c: "get_prop body ''category'' = JStr c" "c \<in> set validCategories" "c \<noteq> []"
    unfolding valid_apart_from_coordinates_def using includes_categoryD by blast
  from v obtain imgs where imgs:
    "those (map (requiredString env) (array_items (get_prop body ''images''))) = Some imgs"
    unfolding valid_apart_from_coordinates_def using requiredString_images by blast
  from v have uid: "ObjectId_isValid env uid" and fresh: "\<not> list_ex (\<lambda>x. report_id x = new_id fr) (reports d)"
    unfolding valid_apart_from_coordinates_def by simp_all
  let ?sev = "if truthy (get_prop body ''severity'') then get_prop body ''severity'' else JStr ''Medium''"
  from v obtain sv where sv: "severityPath env ?sev = Some (Some sv)"
    unfolding valid_apart_from_coordinates_def
    by (cases "get_prop body ''severity''")
       (auto simp: severityPath_def castString_def severityEnum_def)
  let ?f = "report_literal fr uid (trim ds) (Fin x) (Fin y) (trim ad) (get_prop body ''images'')
              (get_prop body ''category'') (get_prop body ''severity'')"
  note tt = trim_idem
  obtain r where r: "new_Report env (new_id fr) (saved_at fr) ?f = Some r"
      "lat r = x" "lng r = y" "report_id r = new_id fr"
    using uid ds ad c imgs sv rg
    by (simp add: new_Report_def report_literal_def boundedNumber_def requiredString_def
        castString_def statusEnum_def validate_entry_def tt)
  have f: "findReport (d\<lparr>reports := reports d @ [r]\<rparr>) (report_id r) = Some r"
    unfolding findReport_def using fresh r(4) by (simp add: find_append_new)
  have "create_report env d fr uid (get_prop body ''description'') (get_prop body ''location'')
             (get_prop body ''images'') (get_prop body ''category'') (get_prop body ''severity'')
           = (Created (Some (populate_userId (d\<lparr>reports := reports d @ [r]\<rparr>) r)),
              d\<lparr>reports := reports d @ [r]\<rparr>)"
    unfolding create_report_def
    using ds ad la lo r(1) fresh r(4) f
    by (simp add: call_trim_def parseFloat_def insert_report_def)
  with r show ?thesis by blast
qed

text \<open>
  Claim C9. Coordinate range validation on submission is inclusive at the bounds and answers
  400 outside them. For a submission that is valid apart from its coordinates, with numeric
  coordinates that pass the presence test (neither is 0): a latitude below -90 or above 90
  is rejected with the 400 latitude error, a longitude below -180 or above 180 with the 400
  longitude error, and every latitude in \<open>[-90, 90]\<close> with a longitude in
  \<open>[-180, 180]\<close> is accepted and stored as sent. So 90 is accepted and 90.0001
  rejected, -180 accepted and -180.5 rejected.
\<close>

theorem coordinate_range_validation:
  assumes v: "valid_apart_from_coordinates env d fr uid body"
    and la: "get_prop (get_prop body ''location'') ''lat'' = JNum (Fin x)"
    and lo: "get_prop (get_prop body ''location'') ''lng'' = JNum (Fin y)"
    and nz: "x \<noteq> 0" "y \<noteq> 0"
  shows "(x < - 90 \<or> 90 < x \<longrightarrow>
            submit_report env d fr (Verified uid) body =
              (Fail 400 ''Latitude must be between -90 and 90'', d)) \<and>
         (- 90 \<le> x \<and> x \<le> 90 \<and> (y < - 180 \<or> 180 < y) \<longrightarrow>
            submit_report env d fr (Verified uid) body =
              (Fail 400 ''Longitude must be between -180 and 180'', d)) \<and>
         (- 90 \<le> x \<and> x \<le> 90 \<and> - 180 \<le> y \<and> y \<le> 180 \<longrightarrow>
            (\<exists>r. submit_report env d fr (Verified uid) body =
                   (Created (Some (populate_userId (d\<lparr>reports := reports d @ [r]\<rparr>) r)),
                    d\<lparr>reports := reports d @ [r]\<rparr>) \<and>
                 lat r = x \<and> lng r = y))"
proof -
  from v obtain ds where ds: "get_prop body ''description'' = JStr ds" "ds \<noteq> []"
    unfolding valid_apart_from_coordinates_def using nonblank_stringD by blast
  from v obtain ad where ad: "get_prop (get_prop body ''location'') ''address'' = JStr ad" "ad \<noteq> []"
    unfolding valid_apart_from_coordinates_def using nonblank_stringD by blast
  from v have ic: "includes_category (get_prop body ''category'')"
    unfolding valid_apart_from_coordinates_def by simp
  then obtain c where c: "get_prop body ''category'' = JStr c" "c \<noteq> []"
    using includes_categoryD by blast
  from v have im: "isArray (get_prop body ''images'')" "array_items (get_prop body ''images'') \<noteq> []"
    unfolding valid_apart_from_coordinates_def by simp_all
  then have ti: "truthy (get_prop body ''images'')"
    by (cases "get_prop body ''images''") (simp_all add: isArray_def)
  have eq: "submit_report env d fr (Verified uid) body =
     (if x < - 90 \<or> 90 < x then (Fail 400 ''Latitude must be between -90 and 90'', d)
      else if y < - 180 \<or> 180 < y then (Fail 400 ''Longitude must be between -180 and 180'', d)
      else if \<not> includes_category (get_prop body ''category'') then
        (InvalidCategory validCategories, d)
      else create_report env d fr uid (get_prop body ''description'') (get_prop body ''location'')
             (get_prop body ''images'') (get_prop body ''category'') (get_prop body ''severity''))"
    using ds ad c ti im by (intro submit_report_numeric [OF _ _ _ _ _ _ la lo nz]) simp_all
  have acc: "\<exists>r. submit_report env d fr (Verified uid) body =
                   (Created (Some (populate_userId (d\<lparr>reports := reports d @ [r]\<rparr>) r)),
                    d\<lparr>reports := reports d @ [r]\<rparr>) \<and>
                 lat r = x \<and> lng r = y"
    if rg: "- 90 \<le> x" "x \<le> 90" "- 180 \<le> y" "y \<le> 180"
  proof -
    from create_report_valid [OF v la lo rg] obtain r where
      "create_report env d fr uid (get_prop body ''description'') (get_prop body ''location'')
             (get_prop body ''images'') (get_prop body ''category'') (get_prop body ''severity'')
           = (Created (Some (populate_userId (d\<lparr>reports := reports d @ [r]\<rparr>) r)),
              d\<lparr>reports := reports d @ [r]\<rparr>)" "lat r = x" "lng r = y" by blast
    with eq ic rg show ?thesis by auto
  qed
  from eq acc show ?thesis by auto
qed

lemma demo_valid:
  "valid_apart_from_coordinates demo_env empty_db demo_fresh alice_id (demo_body la lo JUndefined)"
  by (simp add: valid_apart_from_coordinates_def demo_env_def empty_db_def demo_fresh_def
      alice_id_def demo_body_def isHex24_def nonblank_string_def nonempty_string_def
      trim_def isWhiteSpace_def isArray_def array_items_def includes_category_def
      validCategories_def)

lemma demo_coords:
  "get_prop (get_prop (demo_body la lo sev) ''location'') ''lat'' = la"
  "get_prop (get_prop (demo_body la lo sev) ''location'') ''lng'' = lo"
  by (simp_all add: demo_body_def)

theorem coordinate_range_validation_witness:
  "valid_apart_from_coordinates demo_env empty_db demo_fresh alice_id
     (demo_body (JNum (Fin 90)) (JNum (Fin (- 180))) JUndefined) \<and>
   is_created (fst (submit_report demo_env empty_db demo_fresh (Verified alice_id)
     (demo_body (JNum (Fin 90)) (JNum (Fin (- 180))) JUndefined))) \<and>
   map lat (reports (snd (submit_report demo_env empty_db demo_fresh (Verified alice_id)
     (demo_body (JNum (Fin 90)) (JNum (Fin (- 180))) JUndefined)))) = [90] \<and>
   map lng (reports (snd (submit_report demo_env empty_db demo_fresh (Verified alice_id)
     (demo_body (JNum (Fin 90)) (JNum (Fin (- 180))) JUndefined)))) = [- 180] \<and>
   submit_report demo_env empty_db demo_fresh (Verified alice_id)
     (demo_body (JNum (Fin (900001 / 10000))) (JNum (Fin (- 180))) JUndefined) =
     (Fail 400 ''Latitude must be between -90 and 90'', empty_db) \<and>
   submit_report demo_env empty_db demo_fresh (Verified alice_id)
     (demo_body (JNum (Fin 90)) (JNum (Fin (- 361 / 2))) JUndefined) =
     (Fail 400 ''Longitude must be between -180 and 180'', empty_db)"
proof -
  note T = coordinate_range_validation [OF demo_valid demo_coords]
  from T [of 90 "- 180"] obtain r where
    r: "submit_report demo_env empty_db demo_fresh (Verified alice_id)
          (demo_body (JNum (Fin 90)) (JNum (Fin (- 180))) JUndefined) =
        (Created (Some (populate_userId (empty_db\<lparr>reports := reports empty_db @ [r]\<rparr>) r)),
         empty_db\<lparr>reports := reports empty_db @ [r]\<rparr>)" "lat r = 90" "lng r = - 180"
    by auto
  have a: "is_created (fst (submit_report demo_env empty_db demo_fresh (Verified alice_id)
     (demo_body (JNum (Fin 90)) (JNum (Fin (- 180))) JUndefined)))"
    "map lat (reports (snd (submit_report demo_env empty_db demo_fresh (Verified alice_id)
     (demo_body (JNum (Fin 90)) (JNum (Fin (- 180))) JUndefined)))) = [90]"
    "map lng (reports (snd (submit_report demo_env empty_db demo_fresh (Verified alice_id)
     (demo_body (JNum (Fin 90)) (JNum (Fin (- 180))) JUndefined)))) = [- 180]"
    using r by (simp_all add: is_created_def empty_db_def)
  have b: "submit_report demo_env empty_db demo_fresh (Verified alice_id)
     (demo_body (JNum (Fin (900001 / 10000))) (JNum (Fin (- 180))) JUndefined) =
     (Fail 400 ''Latitude must be between -90 and 90'', empty_db)"
    using T [of "900001 / 10000" "- 180"] by simp
  have c: "submit_report demo_env empty_db demo_fresh (Verified alice_id)
     (demo_body (JNum (Fin 90)) (JNum (Fin (- 361 / 2))) JUndefined) =
     (Fail 400 ''Longitude must be between -180 and 180'', empty_db)"
    using T [of 90 "- 361 / 2"] by simp
  show ?thesis using demo_valid a b c by simp
qed

text \<open>
  Claim C10, as amended. For every authenticated submission in which \<open>location.lat\<close> or
  \<open>location.lng\<close> is the number 0, the request is rejected with a 400 and nothing is
  stored: with the 400 \<open>Location must include lat, lng, and address\<close> error when the
  description, the images and the category are present (truthy), because presence is tested
  by truthiness, and with the 400 \<open>Description, location, images, and category are
  required\<close> error, whose test comes first, when one of them is missing. This holds for the
  number 0 only: the example after it stores a report with latitude 0 that was sent as the
  string \<open>0\<close>, which is truthy, passes the range test and is read by \<open>parseFloat\<close>.
\<close>

theorem zero_coordinate_rejected:
  assumes "get_prop (get_prop body ''location'') ''lat'' = JNum (Fin 0) \<or>
           get_prop (get_prop body ''location'') ''lng'' = JNum (Fin 0)"
  shows "(truthy (get_prop body ''description'') \<and> truthy (get_prop body ''images'') \<and>
          truthy (get_prop body ''category'') \<longrightarrow>
            submit_report env d fr (Verified uid) body =
              (Fail 400 ''Location must include lat, lng, and address'', d)) \<and>
         (\<not> (truthy (get_prop body ''description'') \<and> truthy (get_prop body ''images'') \<and>
          truthy (get_prop body ''category'')) \<longrightarrow>
            submit_report env d fr (Verified uid) body =
              (Fail 400 ''Description, location, images, and category are required'', d))"
proof -
  from assms have "get_prop (get_prop body ''location'') ''lat'' \<noteq> JUndefined \<or>
                   get_prop (get_prop body ''location'') ''lng'' \<noteq> JUndefined" by auto
  then obtain kvs where loc: "get_prop body ''location'' = JObj kvs"
    using get_prop_defined by blast
  then have "get_prop body ''location'' \<noteq> JUndefined" by simp
  then obtain bs where b: "body = JObj bs" using get_prop_defined by blast
  have tl: "truthy (get_prop body ''location'')" using loc by simp
  have nb: "body \<noteq> JUndefined" "body \<noteq> JNull" using b by simp_all
  from assms have z: "\<not> truthy (get_prop (get_prop body ''location'') ''lat'') \<or>
                      \<not> truthy (get_prop (get_prop body ''location'') ''lng'')" by auto
  show ?thesis
    unfolding submit_report_def Let_def auth_def
    using tl nb z by auto
qed

theorem zero_coordinate_rejected_witness:
  "get_prop (get_prop (demo_body (JNum (Fin 0)) (JNum (Fin 77)) JUndefined) ''location'') ''lat''
     = JNum (Fin 0) \<and>
   truthy (get_prop (demo_body (JNum (Fin 0)) (JNum (Fin 77)) JUndefined) ''description'') \<and>
   truthy (get_prop (demo_body (JNum (Fin 0)) (JNum (Fin 77)) JUndefined) ''images'') \<and>
   truthy (get_prop (demo_body (JNum (Fin 0)) (JNum (Fin 77)) JUndefined) ''category'') \<and>
   submit_report demo_env empty_db demo_fresh (Verified alice_id)
     (demo_body (JNum (Fin 0)) (JNum (Fin 77)) JUndefined) =
     (Fail 400 ''Location must include lat, lng, and address'', empty_db)"
proof -
  let ?b = "demo_body (JNum (Fin 0)) (JNum (Fin 77)) JUndefined"
  have h: "get_prop (get_prop ?b ''location'') ''lat'' = JNum (Fin 0)"
    "truthy (get_prop ?b ''description'')" "truthy (get_prop ?b ''images'')"
    "truthy (get_prop ?b ''category'')"
    by (simp_all add: demo_body_def)
  from zero_coordinate_rejected [of ?b demo_env empty_db demo_fresh alice_id] h
  have "submit_report demo_env empty_db demo_fresh (Verified alice_id) ?b =
     (Fail 400 ''Location must include lat, lng, and address'', empty_db)" by simp
  with h show ?thesis by simp
qed

text \<open>
  Claim C10 as stated fails twice: a latitude sent as the string \<open>0\<close> is stored as
  latitude 0, and a body with latitude 0 but no description is answered with the error of the
  first test, not with the missing-location error.
\<close>

theorem zero_latitude_stored_counterexample:
  "is_created (fst (submit_report demo_env empty_db demo_fresh (Verified alice_id)
     (demo_body (JStr ''0'') (JNum (Fin 77)) JUndefined))) \<and>
   map lat (reports (snd (submit_report demo_env empty_db demo_fresh (Verified alice_id)
     (demo_body (JStr ''0'') (JNum (Fin 77)) JUndefined)))) = [0] \<and>
   fst (submit_report demo_env empty_db demo_fresh (Verified alice_id)
     (JObj [(''location'', JObj [(''lat'', JNum (Fin 0)), (''lng'', JNum (Fin 77)),
                                 (''address'', JStr ''1 Main Street'')])])) =
     Fail 400 ''Description, location, images, and category are required''"
  by code_simp

section \<open>Properties of the read handlers\<close>

lemma find_Some_holds: "find P xs = Some x \<Longrightarrow> P x"
  by (induction xs) (auto split: if_splits)

text \<open>
  The access test of \<open>GET /api/reports/:id\<close> for a report without a department: with a
  well-formed id of an existing report, requester and owner existing as users, a requester
  who is neither admin nor owner is answered 403, an admin 200 with the report, and so is
  the owner.
\<close>

lemma get_report_access:
  assumes "ObjectId_isValid env rid" and "findReport d rid = Some r"
    and "findUserById env d uid = Inr (Some cu)"
    and "find (\<lambda>u. user_id u = userId r) (users d) = Some ow"
    and nd: "departmentId r = None"
  shows "(role cu \<noteq> ''admin'' \<and> userId r \<noteq> uid \<longrightarrow>
            get_report env d now (Verified uid) rid =
              Fail 403 ''Access denied. You can only view your own reports.'') \<and>
         (role cu = ''admin'' \<longrightarrow>
            get_report env d now (Verified uid) rid =
              ReportDetail \<lparr>detail_report = \<lparr>doc = r, owner = Some ow\<rparr>,
                            timeSinceSubmission = now - createdAt r,
                            canEdit = True, isOwnReport = (userId r = uid)\<rparr>) \<and>
         (role cu \<noteq> ''admin'' \<and> userId r = uid \<longrightarrow>
            get_report env d now (Verified uid) rid =
              ReportDetail \<lparr>detail_report = \<lparr>doc = r, owner = Some ow\<rparr>,
                            timeSinceSubmission = now - createdAt r,
                            canEdit = True, isOwnReport = True\<rparr>)"
proof -
  from assms(4) have o: "user_id ow = userId r" by (rule find_Some_holds)
  from assms(4) have p: "populate_userId d r = \<lparr>doc = r, owner = Some ow\<rparr>"
    by (simp add: populate_userId_def)
  have g: "get_report env d now (Verified uid) rid =
     (if role cu \<noteq> ''admin'' \<and> user_id ow \<noteq> uid
      then Fail 403 ''Access denied. You can only view your own reports.''
      else ReportDetail \<lparr>detail_report = \<lparr>doc = r, owner = Some ow\<rparr>,
                          timeSinceSubmission = now - createdAt r,
                          canEdit = (role cu = ''admin'' \<or> user_id ow = uid),
                          isOwnReport = (user_id ow = uid)\<rparr>)"
    unfolding get_report_def auth_def
    by (simp add: assms(1,2,3) nd findReportById_def populate_departmentId_def Let_def p)
  show ?thesis unfolding g o by auto
qed

text \<open>A report that has a department is answered 500, whoever asks.\<close>

lemma get_report_department:
  assumes "ObjectId_isValid env rid" and "findReport d rid = Some r"
    and "departmentId r \<noteq> None"
  shows "get_report env d now (Verified uid) rid = Fail 500 ''Failed to fetch report''"
  unfolding get_report_def auth_def
  using assms by (auto simp: findReportById_def populate_departmentId_def detail_error_def)

text \<open>
  Claim C8. For a \<open>GET /api/reports/:id\<close> request that passes authentication, an identifier
  that is not well-formed is rejected with the 400 \<open>Invalid report ID format\<close>, and a
  well-formed identifier of no existing report with the 404 \<open>Report not found\<close>. The two
  are never conflated: the answer is a 400 exactly when the identifier is malformed, it is
  that 404 exactly when the identifier is well-formed and no report has it, and no 404 is
  ever the answer to a malformed identifier.
\<close>

theorem malformed_id_distinct_from_not_found:
  "(\<not> ObjectId_isValid env rid \<longrightarrow>
      get_report env d now (Verified uid) rid = Fail 400 ''Invalid report ID format'') \<and>
   (ObjectId_isValid env rid \<and> findReport d rid = None \<longrightarrow>
      get_report env d now (Verified uid) rid = Fail 404 ''Report not found'') \<and>
   ((\<exists>m. get_report env d now (Verified uid) rid = Fail 400 m) \<longleftrightarrow> \<not> ObjectId_isValid env rid) \<and>
   (get_report env d now (Verified uid) rid = Fail 404 ''Report not found'' \<longleftrightarrow>
      ObjectId_isValid env rid \<and> findReport d rid = None) \<and>
   (\<forall>m. get_report env d now (Verified uid) rid = Fail 404 m \<longrightarrow> ObjectId_isValid env rid)"
  unfolding get_report_def auth_def detail_error_def findReportById_def findUserById_def
    populate_departmentId_def Let_def
  by (auto split: option.splits)

lemma doc_populate: "map doc (map (populate_userId d) xs) = xs"
  by (induction xs) (simp_all add: populate_userId_def)

lemma doc_populate_comp: "map (doc \<circ> populate_userId d) xs = xs"
  by (induction xs) (simp_all add: populate_userId_def)

lemma findUserById_valid: "findUserById env d uid = Inr x \<Longrightarrow> ObjectId_isValid env uid"
  by (auto simp: findUserById_def split: if_splits)

lemma set_apply_limit: "set (apply_limit l xs) \<subseteq> set xs"
  by (auto simp: apply_limit_def dest: in_set_takeD)

lemma apply_limit_all: "int (length xs) \<le> l \<Longrightarrow> apply_limit l xs = xs"
  by (auto simp: apply_limit_def)

lemma list_reports_found:
  assumes u: "findUserById env d uid = Inr (Some cu)"
    and "list_reports env d (Verified uid) p = ReportList found pg fl"
  shows "map doc found =
           apply_limit (limitNum p) (drop (nat ((pageNum p - 1) * limitNum p))
             (newest_first (filter (matches (build_query cu uid p)) (reports d))))"
  using assms unfolding list_reports_def auth_def Let_def Report_find_def countDocuments_def
    list_error_def populate_departmentId_def
  by (auto split: if_splits simp: doc_populate_comp)

lemma list_reports_ok:
  assumes u: "findUserById env d uid = Inr (Some cu)"
    and c: "query_casts env (build_query cu uid p)"
    and s: "0 \<le> (pageNum p - 1) * limitNum p"
    and nd: "list_all (\<lambda>r. departmentId r = None)
               (apply_limit (limitNum p) (drop (nat ((pageNum p - 1) * limitNum p))
                  (newest_first (filter (matches (build_query cu uid p)) (reports d)))))"
  shows "list_reports env d (Verified uid) p =
     ReportList
       (map (populate_userId d)
          (apply_limit (limitNum p) (drop (nat ((pageNum p - 1) * limitNum p))
             (newest_first (filter (matches (build_query cu uid p)) (reports d))))))
       \<lparr>currentPage = pageNum p,
        totalPages = Math_ceil (js_div (int (length (filter (matches (build_query cu uid p)) (reports d)))) (limitNum p)),
        totalReports = length (filter (matches (build_query cu uid p)) (reports d)),
        hasNext = js_lt (Fin (rat_of_int (pageNum p)))
          (Math_ceil (js_div (int (length (filter (matches (build_query cu uid p)) (reports d)))) (limitNum p))),
        hasPrev = (1 < pageNum p)\<rparr>
       (p_status p, p_category p, p_userId p)"
  using u c s nd
  unfolding list_reports_def auth_def Let_def Report_find_def countDocuments_def
    populate_departmentId_def
  by simp

text \<open>A page that holds a report with a department is answered 500.\<close>

lemma list_reports_department:
  assumes u: "findUserById env d uid = Inr (Some cu)"
    and nd: "\<not> list_all (\<lambda>r. departmentId r = None)
               (apply_limit (limitNum p) (drop (nat ((pageNum p - 1) * limitNum p))
                  (newest_first (filter (matches (build_query cu uid p)) (reports d)))))"
  shows "list_reports env d (Verified uid) p = Fail 500 ''Failed to fetch reports''"
  using u nd
  unfolding list_reports_def auth_def Let_def Report_find_def countDocuments_def
    populate_departmentId_def list_error_def
  by simp

text \<open>
  The scope of \<open>GET /api/reports\<close>: for a requester who is not an admin the query's owner
  is the requester, whatever \<open>userId\<close> is supplied, and every report of a 200 answer is
  the requester's; for an admin the owner filter is the supplied \<open>userId\<close>, if any. Where
  none of the requester's reports has a department, the answer without filters, on page 1
  and with a limit of at least their number holds exactly the requester's reports.
\<close>

lemma list_reports_scoped:
  assumes u: "findUserById env d uid = Inr (Some cu)"
  shows
   "(role cu \<noteq> ''admin'' \<longrightarrow>
       build_query cu uid p =
         \<lparr>q_userId = Some uid, q_status = given (p_status p), q_category = given (p_category p)\<rparr>) \<and>
    (role cu = ''admin'' \<longrightarrow>
       build_query cu uid p =
         \<lparr>q_userId = given (p_userId p), q_status = given (p_status p),
          q_category = given (p_category p)\<rparr>) \<and>
    (\<forall>found pg fl. list_reports env d (Verified uid) p = ReportList found pg fl \<longrightarrow>
       map doc found =
         apply_limit (limitNum p) (drop (nat ((pageNum p - 1) * limitNum p))
           (newest_first (filter (matches (build_query cu uid p)) (reports d)))) \<and>
       (role cu \<noteq> ''admin'' \<longrightarrow> (\<forall>x \<in> set found. userId (doc x) = uid))) \<and>
    (role cu \<noteq> ''admin'' \<and> given (p_status p) = None \<and> given (p_category p) = None \<and>
     pageNum p = 1 \<and> int (length (filter (\<lambda>r. userId r = uid) (reports d))) \<le> limitNum p \<and>
     list_all (\<lambda>r. departmentId r = None) (filter (\<lambda>r. userId r = uid) (reports d)) \<longrightarrow>
       (\<exists>found pg fl. list_reports env d (Verified uid) p = ReportList found pg fl \<and>
          mset (map doc found) = mset (filter (\<lambda>r. userId r = uid) (reports d)) \<and>
          totalReports pg = length (filter (\<lambda>r. userId r = uid) (reports d)))) \<and>
    (role cu = ''admin'' \<and> given (p_userId p) = None \<longrightarrow>
       (\<forall>r. matches (build_query cu uid p) r \<longleftrightarrow>
            match_field (given (p_status p)) (status r) \<and>
            match_field (given (p_category p)) (category r)))"
proof (intro conjI impI allI)
  show "build_query cu uid p =
         \<lparr>q_userId = Some uid, q_status = given (p_status p), q_category = given (p_category p)\<rparr>"
    if "role cu \<noteq> ''admin''" using that by (simp add: build_query_def)
  show "build_query cu uid p =
         \<lparr>q_userId = given (p_userId p), q_status = given (p_status p),
          q_category = given (p_category p)\<rparr>"
    if "role cu = ''admin''" using that by (simp add: build_query_def)
next
  fix found pg fl
  assume l: "list_reports env d (Verified uid) p = ReportList found pg fl"
  from list_reports_found [OF u l]
  show m: "map doc found =
         apply_limit (limitNum p) (drop (nat ((pageNum p - 1) * limitNum p))
           (newest_first (filter (matches (build_query cu uid p)) (reports d))))" .
  show "\<forall>x \<in> set found. userId (doc x) = uid" if na: "role cu \<noteq> ''admin''"
  proof
    fix x assume "x \<in> set found"
    then have "doc x \<in> set (map doc found)" by simp
    with m have "doc x \<in> set (filter (matches (build_query cu uid p)) (reports d))"
      using set_apply_limit set_drop_subset
      by (metis (no_types, lifting) newest_first_def set_sort subsetD)
    then have "matches (build_query cu uid p) (doc x)" by simp
    with na show "userId (doc x) = uid"
      by (simp add: matches_def build_query_def match_field_def)
  qed
next
  assume h: "role cu \<noteq> ''admin'' \<and> given (p_status p) = None \<and> given (p_category p) = None \<and>
     pageNum p = 1 \<and> int (length (filter (\<lambda>r. userId r = uid) (reports d))) \<le> limitNum p \<and>
     list_all (\<lambda>r. departmentId r = None) (filter (\<lambda>r. userId r = uid) (reports d))"
  let ?q = "build_query cu uid p"
  from h have q: "?q = \<lparr>q_userId = Some uid, q_status = None, q_category = None\<rparr>"
    by (simp add: build_query_def)
  have "matches \<lparr>q_userId = Some uid, q_status = None, q_category = None\<rparr> =
        (\<lambda>r. userId r = uid)"
    by (simp add: fun_eq_iff matches_def match_field_def)
  with q have f: "filter (matches ?q) (reports d) = filter (\<lambda>r. userId r = uid) (reports d)"
    by simp
  have c: "query_casts env ?q"
    using q findUserById_valid [OF u] by (simp add: query_casts_def)
  from h have s: "0 \<le> (pageNum p - 1) * limitNum p" by simp
  have a: "apply_limit (limitNum p) (drop (nat ((pageNum p - 1) * limitNum p))
             (newest_first (filter (matches ?q) (reports d)))) =
           newest_first (filter (\<lambda>r. userId r = uid) (reports d))"
    using h by (simp add: f apply_limit_all newest_first_def)
  have nd: "list_all (\<lambda>r. departmentId r = None)
              (apply_limit (limitNum p) (drop (nat ((pageNum p - 1) * limitNum p))
                 (newest_first (filter (matches ?q) (reports d)))))"
    unfolding a using h by (simp add: newest_first_def list_all_iff)
  show "\<exists>found pg fl. list_reports env d (Verified uid) p = ReportList found pg fl \<and>
          mset (map doc found) = mset (filter (\<lambda>r. userId r = uid) (reports d)) \<and>
          totalReports pg = length (filter (\<lambda>r. userId r = uid) (reports d))"
  proof (intro exI conjI)
    show "list_reports env d (Verified uid) p = ReportList
       (map (populate_userId d) (newest_first (filter (\<lambda>r. userId r = uid) (reports d))))
       \<lparr>currentPage = pageNum p,
        totalPages = Math_ceil (js_div (int (length (filter (matches ?q) (reports d)))) (limitNum p)),
        totalReports = length (filter (matches ?q) (reports d)),
        hasNext = js_lt (Fin (rat_of_int (pageNum p)))
          (Math_ceil (js_div (int (length (filter (matches ?q) (reports d)))) (limitNum p))),
        hasPrev = (1 < pageNum p)\<rparr>
       (p_status p, p_category p, p_userId p)"
      unfolding list_reports_ok [OF u c s nd] a ..
    have "map doc (map (populate_userId d) (newest_first (filter (\<lambda>r. userId r = uid) (reports d))))
          = newest_first (filter (\<lambda>r. userId r = uid) (reports d))"
      by (rule doc_populate)
    then show "mset (map doc (map (populate_userId d)
                 (newest_first (filter (\<lambda>r. userId r = uid) (reports d))))) =
               mset (filter (\<lambda>r. userId r = uid) (reports d))"
      by (simp only: newest_first_def mset_sort)
    show "totalReports \<lparr>currentPage = pageNum p,
        totalPages = Math_ceil (js_div (int (length (filter (matches ?q) (reports d)))) (limitNum p)),
        totalReports = length (filter (matches ?q) (reports d)),
        hasNext = js_lt (Fin (rat_of_int (pageNum p)))
          (Math_ceil (js_div (int (length (filter (matches ?q) (reports d)))) (limitNum p))),
        hasPrev = (1 < pageNum p)\<rparr> = length (filter (\<lambda>r. userId r = uid) (reports d))"
      by (simp add: f)
  qed
next
  fix r
  assume "role cu = ''admin'' \<and> given (p_userId p) = None"
  then show "matches (build_query cu uid p) r \<longleftrightarrow>
            match_field (given (p_status p)) (status r) \<and>
            match_field (given (p_category p)) (category r)"
    by (simp add: matches_def build_query_def match_field_def)
qed

lemma newest_first_sorted: "sorted_wrt (\<lambda>a b. createdAt b \<le> createdAt a) (newest_first rs)"
proof -
  have "sorted (map (\<lambda>r. - createdAt r) (newest_first rs))"
    unfolding newest_first_def by (rule sorted_sort_key)
  then show ?thesis
    by (simp add: sorted_map)
qed

text \<open>
  The page of \<open>GET /api/reports\<close>: for a request with \<open>page = P\<close> and \<open>limit = L\<close>,
  both positive, over \<open>n\<close> matching reports none of which on the page has a department,
  the reports returned are the next \<open>L\<close> after skipping \<open>(P - 1) * L\<close> of the matching
  reports, newest first, with \<open>totalReports = n\<close>, \<open>totalPages = ceil(n / L)\<close>,
  \<open>hasNext = (P < ceil(n / L))\<close> and \<open>hasPrev = (P > 1)\<close>.
\<close>

lemma list_reports_page:
  assumes u: "findUserById env d uid = Inr (Some cu)"
    and c: "query_casts env (build_query cu uid p)"
    and pl: "p_page p = Some P" "p_limit p = Some L"
    and pos: "0 < P" "0 < L"
    and nd: "list_all (\<lambda>r. departmentId r = None)
               (take (nat L) (drop (nat ((P - 1) * L))
                  (newest_first (filter (matches (build_query cu uid p)) (reports d)))))"
  shows
   "(let M = filter (matches (build_query cu uid p)) (reports d);
         n = length M;
         pages = \<lceil>rat_of_nat n / rat_of_int L\<rceil>
     in list_reports env d (Verified uid) p =
          ReportList
            (map (populate_userId d) (take (nat L) (drop (nat ((P - 1) * L)) (newest_first M))))
            \<lparr>currentPage = P, totalPages = Fin (rat_of_int pages), totalReports = n,
             hasNext = (P < pages), hasPrev = (1 < P)\<rparr>
            (p_status p, p_category p, p_userId p) \<and>
        sorted_wrt (\<lambda>a b. createdAt b \<le> createdAt a) (newest_first M) \<and>
        mset (newest_first M) = mset M)"
proof -
  have n: "pageNum p = P" "limitNum p = L"
    using pl by (simp_all add: pageNum_def limitNum_def)
  from pos have s: "0 \<le> (pageNum p - 1) * limitNum p" by (simp add: n)
  have l: "apply_limit (limitNum p) xs = take (nat L) xs" for xs :: "report list"
    using pos by (simp add: apply_limit_def n)
  have nd': "list_all (\<lambda>r. departmentId r = None)
               (apply_limit (limitNum p) (drop (nat ((pageNum p - 1) * limitNum p))
                  (newest_first (filter (matches (build_query cu uid p)) (reports d)))))"
    unfolding l using nd by (simp add: n)
  have m: "mset (newest_first M) = mset M" for M
    by (simp add: newest_first_def)
  show ?thesis
    unfolding Let_def list_reports_ok [OF u c s nd'] l
    using pos by (simp add: n newest_first_sorted m js_div_def Math_ceil_def)
qed

subsection \<open>The read handlers on the example data\<close>

lemma demo_lookup:
  "ObjectId_isValid demo_env ''64c000000000000000000001''"
  "findReport demo_db ''64c000000000000000000001'' = Some (demo_report alice_id 1)"
  "findUserById demo_env demo_db bob_id = Inr (Some bob)"
  "findUserById demo_env demo_db admin_id = Inr (Some carol)"
  "findUserById demo_env demo_db alice_id = Inr (Some alice)"
  "find (\<lambda>u. user_id u = userId (demo_report alice_id 1)) (users demo_db) = Some alice"
  "role bob \<noteq> ''admin''" "role carol = ''admin''" "role alice \<noteq> ''admin''"
  "userId (demo_report alice_id 1) \<noteq> bob_id"
  "\<not> ObjectId_isValid demo_env ''xyz''"
  "ObjectId_isValid demo_env ''64c000000000000000000099''"
  "findReport demo_db ''64c000000000000000000099'' = None"
  by code_simp+

theorem malformed_id_distinct_from_not_found_witness:
  "\<not> ObjectId_isValid demo_env ''xyz'' \<and>
   get_report demo_env demo_db 2000 (Verified alice_id) ''xyz'' =
     Fail 400 ''Invalid report ID format'' \<and>
   ObjectId_isValid demo_env ''64c000000000000000000099'' \<and>
   findReport demo_db ''64c000000000000000000099'' = None \<and>
   get_report demo_env demo_db 2000 (Verified alice_id) ''64c000000000000000000099'' =
     Fail 404 ''Report not found''"
  using malformed_id_distinct_from_not_found [of demo_env "''xyz''" demo_db 2000 alice_id]
    malformed_id_distinct_from_not_found
      [of demo_env "''64c000000000000000000099''" demo_db 2000 alice_id]
    demo_lookup(11,12,13)
  by simp

text \<open>
  Claim C1 says that \<open>GET /api/reports/:id\<close>, for a well-formed id of an existing report,
  answers 403 without report data to a requester who is neither admin nor owner and 200
  with the report to an admin. The handler does so for a report without a department
  (\<open>get_report_access\<close>). For a report that has a \<open>departmentId\<close> it does not: Alice's
  report 25 exists, its owner exists, Carol is an admin and Bob neither admin nor owner,
  and both are answered 500.
\<close>

theorem get_report_department_failure:
  "ObjectId_isValid demo_env ''64c000000000000000000025'' \<and>
   findReport assigned_db ''64c000000000000000000025'' = Some assigned_report \<and>
   departmentId assigned_report = Some ''64d000000000000000000001'' \<and>
   find (\<lambda>u. user_id u = userId assigned_report) (users assigned_db) = Some alice \<and>
   findUserById demo_env assigned_db admin_id = Inr (Some carol) \<and>
   role carol = ''admin'' \<and>
   findUserById demo_env assigned_db bob_id = Inr (Some bob) \<and>
   role bob \<noteq> ''admin'' \<and> userId assigned_report \<noteq> bob_id \<and>
   get_report demo_env assigned_db 2000 (Verified admin_id) ''64c000000000000000000025'' =
     Fail 500 ''Failed to fetch report'' \<and>
   get_report demo_env assigned_db 2000 (Verified bob_id) ''64c000000000000000000025'' =
     Fail 500 ''Failed to fetch report''"
  by (intro conjI) code_simp+

text \<open>
  Claim C2 says that \<open>GET /api/reports\<close> by a requester who is not an admin returns
  exactly the requester's own reports, subject to the filters and the limit. The query is
  scoped so, and every 200 answer holds the requester's reports only
  (\<open>list_reports_scoped\<close>). But when one of those reports on the page has a
  \<open>departmentId\<close> no report is returned: Alice, who is not an admin, owns 25 reports, asks
  with a limit of 100 and a \<open>userId\<close> that is ignored, and is answered 500.
\<close>

theorem list_reports_department_failure:
  "findUserById demo_env assigned_db alice_id = Inr (Some alice) \<and>
   role alice \<noteq> ''admin'' \<and>
   q_userId (build_query alice alice_id (no_params\<lparr>p_userId := Some bob_id, p_limit := Some 100\<rparr>))
     = Some alice_id \<and>
   length (filter (\<lambda>r. userId r = alice_id) (reports assigned_db)) = 25 \<and>
   list_reports demo_env assigned_db (Verified alice_id)
     (no_params\<lparr>p_userId := Some bob_id, p_limit := Some 100\<rparr>) =
     Fail 500 ''Failed to fetch reports''"
  by (intro conjI) code_simp+

text \<open>
  Claim C7 says that \<open>GET /api/reports\<close> with positive page \<open>p\<close> and limit \<open>l\<close> over
  \<open>n\<close> matching reports returns the slice after \<open>(p - 1) * l\<close> of the reports, newest
  first, with \<open>totalReports = n\<close>, \<open>totalPages = ceil(n / l)\<close>, \<open>hasNext\<close> and
  \<open>hasPrev\<close>. The handler does so when no report on the page has a department
  (\<open>list_reports_page\<close>). With 25 matching reports and limit 10, page 1 holds the report
  that has a \<open>departmentId\<close> and is answered 500, while page 3 of the same request,
  and page 2 with limit 7, are answered as the claim says.
\<close>

theorem pagination_department_failure:
  "findUserById demo_env assigned_db admin_id = Inr (Some carol) \<and>
   length (filter (matches (build_query carol admin_id
       (no_params\<lparr>p_userId := Some alice_id, p_page := Some 1, p_limit := Some 10\<rparr>)))
     (reports assigned_db)) = 25 \<and>
   list_reports demo_env assigned_db (Verified admin_id)
     (no_params\<lparr>p_userId := Some alice_id, p_page := Some 1, p_limit := Some 10\<rparr>) =
     Fail 500 ''Failed to fetch reports'' \<and>
   list_reports demo_env assigned_db (Verified admin_id)
     (no_params\<lparr>p_userId := Some alice_id, p_page := Some 3, p_limit := Some 10\<rparr>) =
     ReportList
       (map (populate_userId assigned_db) (map (demo_report alice_id) [5, 4, 3, 2, 1]))
       \<lparr>currentPage = 3, totalPages = Fin 3, totalReports = 25, hasNext = False, hasPrev = True\<rparr>
       (None, None, Some alice_id) \<and>
   list_reports demo_env assigned_db (Verified admin_id)
     (no_params\<lparr>p_userId := Some alice_id, p_page := Some 2, p_limit := Some 7\<rparr>) =
     ReportList
       (map (populate_userId assigned_db) (map (demo_report alice_id) [18, 17, 16, 15, 14, 13, 12]))
       \<lparr>currentPage = 2, totalPages = Fin 4, totalReports = 25, hasNext = True, hasPrev = True\<rparr>
       (None, None, Some alice_id)"
  by (intro conjI) code_simp+

end
